theory Spec2Isabelle
  imports
    Complex_Main
    "HOL-Library.Sublist"
    "HOL-Library.AList"
    "HOL-Library.Multiset"
    "HOL-Library.Char_ord"
    "HOL-Library.List_Lexorder"
begin

section \<open>pyschism/forcing/nws/nws2/gfs2.py: the GFS inventory and the sflux extractor\<close>

text \<open>
  The module has two classes. \<^verbatim>\<open>AWSGrib2Inventory\<close> lists a forecast cycle of the
  remote bucket, filters and sorts the keys, and downloads a slice of them into a scratch
  directory. \<^verbatim>\<open>GFS.gen_sflux\<close> opens every downloaded file, cuts eight fields to a
  bounding-box window and writes one dataset per day.

  The remote store, the grib decoder and the float32 rounding are external: they are fields
  of a record \<open>world\<close>, and nothing is assumed of them beyond what a theorem states.
  Python exceptions are values of type \<open>error\<close>; a function that may raise returns
  \<open>error + 'a\<close>. Strings are \<open>char list\<close>, compared as Python compares \<^verbatim>\<open>str\<close>
  (lexicographically by code unit).
\<close>

subsection \<open>Exceptions\<close>

datatype error =
    IndexError
  | KeyError
  | ValueError
  | FileNotFoundError
  | ListingError string
  | DecodeError string

subsection \<open>Python built-ins used by the module\<close>

text \<open>\<^verbatim>\<open>a in b\<close> on strings: \<open>a\<close> occurs in \<open>b\<close> as a contiguous run.\<close>

fun str_in :: "string \<Rightarrow> string \<Rightarrow> bool" where
  "str_in a [] = (a = [])"
| "str_in a (c # cs) = (prefix a (c # cs) \<or> str_in a cs)"

text \<open>
  \<^verbatim>\<open>xs[start:stop]\<close> with step 1: a negative bound counts from the end, and both bounds
  are clamped to the list.
\<close>

definition slice_bound :: "nat \<Rightarrow> int \<Rightarrow> nat" where
  "slice_bound n i = (if i < 0 then nat (max 0 (int n + i)) else min n (nat i))"

definition py_slice :: "'a list \<Rightarrow> int \<Rightarrow> int \<Rightarrow> 'a list" where
  "py_slice xs start stop =
     drop (slice_bound (length xs) start) (take (slice_bound (length xs) stop) xs)"

text \<open>\<^verbatim>\<open>f'{n:0Wd}'\<close> for a non-negative \<open>n\<close>: decimal digits, padded with zeros to width \<open>W\<close>.\<close>

definition digit_char :: "nat \<Rightarrow> char" where
  "digit_char d = ''0123456789'' ! (d mod 10)"

fun decimal :: "nat \<Rightarrow> string" where
  "decimal n = (if n < 10 then [digit_char n] else decimal (n div 10) @ [digit_char n])"

declare decimal.simps [simp del]

definition fmt_0d :: "nat \<Rightarrow> nat \<Rightarrow> string" where
  "fmt_0d w n = replicate (w - length (decimal n)) CHR ''0'' @ decimal n"

subsection \<open>The remote listing\<close>

text \<open>
  An object of a listing page is a dict; the module reads only its \<^verbatim>\<open>'Key'\<close>. A page
  is a dict whose \<^verbatim>\<open>'Contents'\<close> entry may be missing (the store omits it for an empty
  page), in which case \<^verbatim>\<open>page['Contents']\<close> raises KeyError.
\<close>

record s3_object =
  Key :: string
  Size :: nat

record page =
  Contents :: "s3_object list option"

fun collect_pages :: "page list \<Rightarrow> error + s3_object list" where
  "collect_pages [] = Inr []"
| "collect_pages (p # ps) =
     (case Contents p of
        None \<Rightarrow> Inl KeyError
      | Some objs \<Rightarrow>
          (case collect_pages ps of Inl e \<Rightarrow> Inl e | Inr rest \<Rightarrow> Inr (objs @ rest)))"

text \<open>Lines 49-50: the comprehension's condition, and the sorted list of the kept keys.\<close>

definition keep_key :: "string \<Rightarrow> bool" where
  "keep_key k \<longleftrightarrow>
     str_in ''0p25'' k \<and> str_in ''pgrb2'' k \<and> \<not> str_in ''goessim'' k
     \<and> \<not> str_in ''anl'' k \<and> \<not> str_in ''idx'' k"

definition file_metadata :: "s3_object list \<Rightarrow> string list" where
  "file_metadata data = sort (map Key (filter (\<lambda>obj. keep_key (Key obj)) data))"

text \<open>Line 52: the keys the download loop runs over, \<^verbatim>\<open>file_metadata[1:self.record*24+1]\<close>.\<close>

definition selected_keys :: "int \<Rightarrow> string list \<Rightarrow> string list" where
  "selected_keys record fm = py_slice fm 1 (record * 24 + 1)"


subsection \<open>The external world and the state the module changes\<close>

type_synonym bytes = "char list"

text \<open>
  A download either completes or raises; either way it may have written bytes to the
  open file before it returned.
\<close>

datatype dl_result = Downloaded bytes | DownloadRaised bytes

text \<open>
  What the grib decoder returns for a file and a \<^verbatim>\<open>filter_by_keys\<close> dict: the native
  coordinate vectors and the 2-D fields (a list of rows, one row per native latitude).
\<close>

datatype filter_key = paramId int | typeOfLevel string | stepType string

record grib_dataset =
  longitude :: "real list"
  latitude :: "real list"
  data_vars :: "(string \<times> real list list) list"

record world =
  paginate :: "string \<Rightarrow> error + page list"
  download_fileobj :: "string \<Rightarrow> dl_result"
  TemporaryDirectory :: "string option \<Rightarrow> string"
  open_dataset :: "bytes \<Rightarrow> filter_key list \<Rightarrow> error + grib_dataset"
  astype_float32 :: "real \<Rightarrow> real"

datatype attr = Str string | Ints "int list"

datatype ndarray = Array1 "real list" | Array2 "real list list" | Array3 "real list list list"

record variable =
  dims :: "string list"
  array :: ndarray
  attrs :: "(string \<times> attr) list"

record dataset =
  variables :: "(string \<times> variable) list"
  coords :: "(string \<times> variable) list"

text \<open>
  The state: the files of the local file system (path and content), the directories the
  extractor created, the lines the download loop logged, and the NetCDF files written.
\<close>

record state =
  fs :: "(string \<times> bytes) list"
  dirs :: "string list"
  download_log :: "string list"
  netcdf :: "(string \<times> dataset) list"

definition and_then :: "error + 'a \<Rightarrow> ('a \<Rightarrow> error + 'b) \<Rightarrow> error + 'b" where
  "and_then m f = (case m of Inl e \<Rightarrow> Inl e | Inr x \<Rightarrow> f x)"

subsection \<open>AWSGrib2Inventory\<close>

record cycle_date =
  year :: nat
  month :: nat
  day :: nat
  hour :: nat

definition strftime_Ymd :: "cycle_date \<Rightarrow> string" where
  "strftime_Ymd d = fmt_0d 4 (year d) @ fmt_0d 2 (month d) @ fmt_0d 2 (day d)"

text \<open>Lines 41-42: the prefix of the listing; \<^verbatim>\<open>self.cycle\<close> is the hour of the date.\<close>

definition remote_prefix :: "cycle_date \<Rightarrow> string \<Rightarrow> string" where
  "remote_prefix d family =
     ''gfs.'' @ strftime_Ymd d @ ''/'' @ fmt_0d 2 (hour d) @ ''/'' @ family @ ''/''"

text \<open>
  Lines 53-54: \<^verbatim>\<open>pathlib.Path(self.tmpdir) / (key + '.grib2')\<close>, for a key that is a
  relative path (every key of the listing starts with the prefix).
\<close>

definition local_path :: "string \<Rightarrow> string \<Rightarrow> string" where
  "local_path tmp key = tmp @ ''/'' @ key @ ''.grib2''"

text \<open>
  Lines 52-62. \<^verbatim>\<open>open(filename, 'wb')\<close> creates the file, or empties it, before the
  download starts; the bare \<^verbatim>\<open>except\<close> catches whatever the download raises, logs
  and goes on to the next key. Creating the parent directories is not modelled.
\<close>

definition download_one :: "world \<Rightarrow> string \<Rightarrow> string \<Rightarrow> state \<Rightarrow> state" where
  "download_one w tmp key st =
     (let filename = local_path tmp key;
          st1 = st\<lparr>fs := AList.update filename [] (fs st),
                   download_log := download_log st @ [''Downloading file '' @ key @ '', '']\<rparr>
      in case download_fileobj w key of
           Downloaded b \<Rightarrow> st1\<lparr>fs := AList.update filename b (fs st1)\<rparr>
         | DownloadRaised b \<Rightarrow>
             st1\<lparr>fs := AList.update filename b (fs st1),
                 download_log := download_log st1 @ [''file '' @ key @ '' is not available'']\<rparr>)"

fun download_loop :: "world \<Rightarrow> string \<Rightarrow> string list \<Rightarrow> state \<Rightarrow> state" where
  "download_loop w tmp [] st = st"
| "download_loop w tmp (key # keys) st = download_loop w tmp keys (download_one w tmp key st)"

record inventory =
  start_date :: cycle_date
  inv_record :: int
  pscr :: "string option"
  product :: string
  tmpdir :: string

definition AWSGrib2Inventory ::
  "world \<Rightarrow> cycle_date \<Rightarrow> int \<Rightarrow> string option \<Rightarrow> string \<Rightarrow> state \<Rightarrow> (error + inventory) \<times> state"
where
  "AWSGrib2Inventory w date record scr family st =
     (let self = \<lparr>start_date = date, inv_record = record, pscr = scr, product = family,
                   tmpdir = TemporaryDirectory w scr\<rparr>
      in case and_then (paginate w (remote_prefix date family)) collect_pages of
           Inl e \<Rightarrow> (Inl e, st)
         | Inr data \<Rightarrow>
             (Inr self,
              download_loop w (tmpdir self) (selected_keys record (file_metadata data)) st))"

text \<open>
  Lines 83-87, the property \<^verbatim>\<open>files\<close>: the paths of the file system that match
  \<^verbatim>\<open>{tmpdir}/gfs.{Ymd}/{cycle:02d}/{product}/gfs.t{cycle:02d}z.pgrb2.0p25.f*.grib2\<close>,
  sorted. The star matches any run of characters without a slash; the rest of the pattern
  is taken literally (a scratch directory name has no glob character).
\<close>

definition glob_star :: "string \<Rightarrow> string \<Rightarrow> string \<Rightarrow> bool" where
  "glob_star pre suf p \<longleftrightarrow>
     length pre + length suf \<le> length p \<and> prefix pre p \<and> suffix suf p
     \<and> CHR ''/'' \<notin> set (take (length p - length pre - length suf) (drop (length pre) p))"

definition hourly_name :: "cycle_date \<Rightarrow> string \<Rightarrow> string" where
  "hourly_name d family =
     remote_prefix d family @ ''gfs.t'' @ fmt_0d 2 (hour d) @ ''z.pgrb2.0p25.f''"

definition files :: "inventory \<Rightarrow> state \<Rightarrow> string list" where
  "files self st =
     sort (filter
       (glob_star (tmpdir self @ ''/'' @ hourly_name (start_date self) (product self)) ''.grib2'')
       (map fst (fs st)))"

subsection \<open>GFS.modified_latlon\<close>

record bbox =
  xmin :: real
  xmax :: real
  ymin :: real
  ymax :: real

text \<open>\<^verbatim>\<open>np.where(cond)[0]\<close> on a vector: the indices where the condition holds, ascending.\<close>

definition np_where :: "('a \<Rightarrow> bool) \<Rightarrow> 'a list \<Rightarrow> nat list" where
  "np_where P xs = filter (\<lambda>i. P (xs ! i)) [0..<length xs]"

text \<open>\<^verbatim>\<open>np.meshgrid(xs, ys)\<close>: two arrays of \<open>length ys\<close> rows and \<open>length xs\<close> columns.\<close>

definition meshgrid :: "real list \<Rightarrow> real list \<Rightarrow> real list list \<times> real list list" where
  "meshgrid xs ys = (map (\<lambda>y. xs) ys, map (\<lambda>y. map (\<lambda>x. y) xs) ys)"

text \<open>Opening a local file with the decoder: the file must exist.\<close>

definition open_file ::
  "world \<Rightarrow> (string \<times> bytes) list \<Rightarrow> string \<Rightarrow> filter_key list \<Rightarrow> error + grib_dataset"
where
  "open_file w fsys path flt =
     (case map_of fsys path of
        None \<Rightarrow> Inl FileNotFoundError
      | Some content \<Rightarrow> open_dataset w content flt)"

text \<open>The tuple that \<^verbatim>\<open>modified_latlon\<close> returns, as a record.\<close>

record latlon =
  lon_grid :: "real list list"
  lat_grid :: "real list list"
  idx_ymin :: nat
  idx_ymax :: nat
  idx_xmin :: nat
  idx_xmax :: nat

text \<open>
  Lines 264-290. Coordinates are real numbers; the in-place \<^verbatim>\<open>lon2[idxs] -= 360\<close> is
  the exact difference. \<^verbatim>\<open>lat_idxs[0]\<close> is evaluated before \<^verbatim>\<open>lon_idxs[0]\<close>, and
  each raises IndexError on an empty index vector.
\<close>

definition modified_latlon ::
  "world \<Rightarrow> bbox \<Rightarrow> (string \<times> bytes) list \<Rightarrow> string \<Rightarrow> error + latlon"
where
  "modified_latlon w bb fsys grbfile =
     (let xmin1 = (if xmin bb < 0 then xmin bb + 360 else xmin bb);
          xmax1 = (if xmax bb < 0 then xmax bb + 360 else xmax bb)
      in and_then (open_file w fsys grbfile [stepType ''instant'', typeOfLevel ''surface''])
           (\<lambda>ds.
              let lon = map (astype_float32 w) (longitude ds);
                  lat = map (astype_float32 w) (latitude ds);
                  lon_idxs = np_where (\<lambda>v. xmin1 - 1 \<le> v \<and> v \<le> xmax1 + 1) lon;
                  lat_idxs = np_where (\<lambda>v. ymin bb - 1 \<le> v \<and> v \<le> ymax bb + 1) lat
              in if lat_idxs = [] then Inl IndexError
                 else if lon_idxs = [] then Inl IndexError
                 else
                   (let lon2 = map (\<lambda>v. if 180 < v then v - 360 else v)
                                 (map (\<lambda>i. lon ! i) lon_idxs);
                        lat2 = map (\<lambda>i. lat ! i) lat_idxs;
                        grids = meshgrid lon2 (rev lat2)
                    in Inr \<lparr>lon_grid = fst grids, lat_grid = snd grids,
                            idx_ymin = hd lat_idxs, idx_ymax = last lat_idxs,
                            idx_xmin = hd lon_idxs, idx_xmax = last lon_idxs\<rparr>)))"

subsection \<open>GFS.gen_sflux\<close>

text \<open>
  The eight accumulator lists of lines 119-126, indexed by a name. Lines 148-149 (and
  157-158, 166-167, 175-176): the window slice of a decoded field, cast to float32, rows
  reversed.
\<close>

datatype var = Stmp | Spfh | Uwind | Vwind | Prmsl | Prate | Dlwrf | Dswrf

definition window_slice :: "world \<Rightarrow> latlon \<Rightarrow> real list list \<Rightarrow> real list list" where
  "window_slice w ll a =
     rev (map (map (astype_float32 w))
       (map (\<lambda>row. py_slice row (int (idx_xmin ll)) (int (idx_xmax ll) + 1))
          (py_slice a (int (idx_ymin ll)) (int (idx_ymax ll) + 1))))"

definition read_var ::
  "world \<Rightarrow> latlon \<Rightarrow> grib_dataset \<Rightarrow> string \<Rightarrow> var
     \<Rightarrow> (var \<Rightarrow> real list list list) \<Rightarrow> error + (var \<Rightarrow> real list list list)"
where
  "read_var w ll ds key2 v s =
     (case map_of (data_vars ds) key2 of
        None \<Rightarrow> Inl KeyError
      | Some a \<Rightarrow> Inr (s(v := s v @ [window_slice w ll a])))"

text \<open>
  The table \<^verbatim>\<open>Vars\<close> of lines 128-134 read as functions: for each accumulator, the
  decoder filter its group opens the file with and the decoder's name of the field; and the
  name the dataset of lines 179-186 gives it. \<open>decoded\<close> is the field the decoder returns
  for a variable of a file.
\<close>

fun var_filter :: "var \<Rightarrow> filter_key list" where
  "var_filter Spfh = [paramId 174096]"
| "var_filter Stmp = [paramId 167]"
| "var_filter Uwind = [paramId 165]"
| "var_filter Vwind = [paramId 166]"
| "var_filter Prmsl = [typeOfLevel ''meanSea'']"
| "var_filter Prate = [stepType ''instant'', typeOfLevel ''surface'']"
| "var_filter Dlwrf = [stepType ''avg'', typeOfLevel ''surface'']"
| "var_filter Dswrf = [stepType ''avg'', typeOfLevel ''surface'']"

fun var_key :: "var \<Rightarrow> string" where
  "var_key Spfh = ''sh2''"
| "var_key Stmp = ''t2m''"
| "var_key Uwind = ''u10''"
| "var_key Vwind = ''v10''"
| "var_key Prmsl = ''prmsl''"
| "var_key Prate = ''prate''"
| "var_key Dlwrf = ''dlwrf''"
| "var_key Dswrf = ''dswrf''"

fun var_name :: "var \<Rightarrow> string" where
  "var_name Stmp = ''stmp''"
| "var_name Spfh = ''spfh''"
| "var_name Uwind = ''uwind''"
| "var_name Vwind = ''vwind''"
| "var_name Prmsl = ''prmsl''"
| "var_name Prate = ''prate''"
| "var_name Dlwrf = ''dlwrf''"
| "var_name Dswrf = ''dswrf''"

definition decoded ::
  "world \<Rightarrow> (string \<times> bytes) list \<Rightarrow> string \<Rightarrow> var \<Rightarrow> error + real list list"
where
  "decoded w fsys file v =
     and_then (open_file w fsys file (var_filter v))
       (\<lambda>ds. case map_of (data_vars ds) (var_key v) of
                None \<Rightarrow> Inl KeyError
              | Some a \<Rightarrow> Inr a)"

text \<open>Lines 142-177: one pass of the loop body, the four groups in the dict's order.\<close>

definition extract_file ::
  "world \<Rightarrow> latlon \<Rightarrow> (string \<times> bytes) list \<Rightarrow> string
     \<Rightarrow> (var \<Rightarrow> real list list list) \<Rightarrow> error + (var \<Rightarrow> real list list list)"
where
  "extract_file w ll fsys file s0 =
     and_then (open_file w fsys file [paramId 174096]) (\<lambda>ds.
     and_then (read_var w ll ds ''sh2'' Spfh s0) (\<lambda>s1.
     and_then (open_file w fsys file [paramId 167]) (\<lambda>ds.
     and_then (read_var w ll ds ''t2m'' Stmp s1) (\<lambda>s2.
     and_then (open_file w fsys file [paramId 165]) (\<lambda>ds.
     and_then (read_var w ll ds ''u10'' Uwind s2) (\<lambda>s3.
     and_then (open_file w fsys file [paramId 166]) (\<lambda>ds.
     and_then (read_var w ll ds ''v10'' Vwind s3) (\<lambda>s4.
     and_then (open_file w fsys file [typeOfLevel ''meanSea'']) (\<lambda>ds.
     and_then (read_var w ll ds ''prmsl'' Prmsl s4) (\<lambda>s5.
     and_then (open_file w fsys file [stepType ''instant'', typeOfLevel ''surface'']) (\<lambda>ds.
     and_then (read_var w ll ds ''prate'' Prate s5) (\<lambda>s6.
     and_then (open_file w fsys file [stepType ''avg'', typeOfLevel ''surface'']) (\<lambda>ds.
     and_then (read_var w ll ds ''dlwrf'' Dlwrf s6) (\<lambda>s7.
     read_var w ll ds ''dswrf'' Dswrf s7))))))))))))))"

fun extract_all ::
  "world \<Rightarrow> latlon \<Rightarrow> (string \<times> bytes) list \<Rightarrow> string list
     \<Rightarrow> (var \<Rightarrow> real list list list) \<Rightarrow> error + (var \<Rightarrow> real list list list)"
where
  "extract_all w ll fsys [] s = Inr s"
| "extract_all w ll fsys (file # rest) s =
     (case extract_file w ll fsys file s of
        Inl e \<Rightarrow> Inl e
      | Inr s1 \<Rightarrow> extract_all w ll fsys rest s1)"

text \<open>
  \<^verbatim>\<open>np.round(x, d)\<close> scales by \<open>10 ^ d\<close>, rounds to the nearest integer with ties to
  even, and scales back. Line 189: the time coordinate.
\<close>

definition np_rint :: "real \<Rightarrow> int" where
  "np_rint x =
     (let f = \<lfloor>x\<rfloor>; r = x - of_int f
      in if r < 1 / 2 then f else if 1 / 2 < r then f + 1 else if even f then f else f + 1)"

definition np_round :: "real \<Rightarrow> nat \<Rightarrow> real" where
  "np_round x d = of_int (np_rint (x * 10 ^ d)) / 10 ^ d"

definition time_coord :: "world \<Rightarrow> nat \<Rightarrow> real list" where
  "time_coord w n = map (\<lambda>h. astype_float32 w (np_round (real h / 24) 4)) [1..<n + 1]"

text \<open>
  Lines 179-192. \<^verbatim>\<open>np.array\<close> stacks the slices of a variable, and \<^verbatim>\<open>xr.Dataset\<close>
  raises ValueError unless every variable has one slice per time value and every slice has
  the shape of the coordinate grids.
\<close>

definition has_shape :: "nat \<Rightarrow> nat \<Rightarrow> 'a list list \<Rightarrow> bool" where
  "has_shape ny nx a \<longleftrightarrow> length a = ny \<and> list_all (\<lambda>row. length row = nx) a"

definition has_shape3 :: "nat \<Rightarrow> nat \<Rightarrow> nat \<Rightarrow> 'a list list list \<Rightarrow> bool" where
  "has_shape3 nt ny nx a \<longleftrightarrow> length a = nt \<and> list_all (has_shape ny nx) a"

definition xr_Dataset ::
  "(string \<times> real list list list) list \<Rightarrow> real list \<Rightarrow> real list list \<Rightarrow> real list list
     \<Rightarrow> error + dataset"
where
  "xr_Dataset vars time_values lon lat =
     (let ny = length lon;
          nx = (case lon of [] \<Rightarrow> 0 | row # _ \<Rightarrow> length row)
      in if has_shape ny nx lon \<and> has_shape ny nx lat
            \<and> list_all (\<lambda>(name, a). has_shape3 (length time_values) ny nx a) vars
         then Inr \<lparr>variables =
                     map (\<lambda>(name, a).
                            (name, \<lparr>dims = [''time'', ''ny_grid'', ''nx_grid''],
                                    array = Array3 a, attrs = []\<rparr>)) vars,
                   coords =
                     [(''time'', \<lparr>dims = [''time''], array = Array1 time_values, attrs = []\<rparr>),
                      (''lon'', \<lparr>dims = [''ny_grid'', ''nx_grid''], array = Array2 lon,
                                attrs = []\<rparr>),
                      (''lat'', \<lparr>dims = [''ny_grid'', ''nx_grid''], array = Array2 lat,
                                attrs = []\<rparr>)]\<rparr>
         else Inl ValueError)"

text \<open>Lines 194-259: the attribute dicts, assigned in the order of the source.\<close>

definition set_attrs ::
  "string \<Rightarrow> (string \<times> attr) list \<Rightarrow> (string \<times> variable) list \<Rightarrow> (string \<times> variable) list"
where
  "set_attrs name a vs = map (\<lambda>(n, v). if n = name then (n, v\<lparr>attrs := a\<rparr>) else (n, v)) vs"

definition time_attrs :: "cycle_date \<Rightarrow> (string \<times> attr) list" where
  "time_attrs date =
     [(''long_name'', Str ''Time''),
      (''standard_name'', Str ''time''),
      (''base_date'',
         Ints [int (year date), int (month date), int (day date), int (hour date), 0]),
      (''units'',
         Str (''days since '' @ decimal (year date) @ ''-'' @ decimal (month date) @ ''-''
              @ decimal (day date) @ '' '' @ fmt_0d 2 (hour date) @ '':00 UTC''))]"

definition assign_attrs :: "cycle_date \<Rightarrow> dataset \<Rightarrow> dataset" where
  "assign_attrs date fout =
     \<lparr>variables =
        (set_attrs ''dswrf''
           [(''units'', Str ''W m-2''),
            (''long_name'', Str ''Downward long-wave radiation flux'')]
        (set_attrs ''dlwrf''
           [(''units'', Str ''W m-2''),
            (''long_name'', Str ''Downward short-wave radiation flux'')]
        (set_attrs ''prate''
           [(''units'', Str ''kg m-2 s-1''),
            (''long_name'', Str ''Precipitation rate'')]
        (set_attrs ''stmp''
           [(''units'', Str ''K''),
            (''long_name'', Str ''2m_above_ground/Temperature'')]
        (set_attrs ''prmsl''
           [(''units'', Str ''Pa''),
            (''long_name'', Str ''Pressure reduced to MSL''),
            (''standard_name'', Str ''air_pressure_at_sea_level'')]
        (set_attrs ''spfh''
           [(''units'', Str ''kg kg-1''),
            (''long_name'', Str ''2m_above_ground/Specific Humidity''),
            (''standard_name'', Str ''specific_humidity'')]
        (set_attrs ''vwind''
           [(''units'', Str ''m/s''),
            (''long_name'', Str ''10m_above_ground/VGRD''),
            (''standard_name'', Str ''northward_wind'')]
        (set_attrs ''uwind''
           [(''units'', Str ''m/s''),
            (''long_name'', Str ''10m_above_ground/UGRD''),
            (''standard_name'', Str ''eastward_wind'')]
        (variables fout))))))))),
      coords =
        (set_attrs ''lon''
           [(''units'', Str ''degrees_east''),
            (''long_name'', Str ''Longitude''),
            (''standard_name'', Str ''longitude'')]
        (set_attrs ''lat''
           [(''units'', Str ''degrees_north''),
            (''long_name'', Str ''Latitude''),
            (''standard_name'', Str ''latitude'')]
        (set_attrs ''time'' (time_attrs date) (coords fout))))\<rparr>"

text \<open>
  Lines 119-259, everything between the directory creation and the write: the window from
  the first file, the loop over the files, the dataset and its attributes.
\<close>

definition build_dataset ::
  "world \<Rightarrow> bbox \<Rightarrow> cycle_date \<Rightarrow> (string \<times> bytes) list \<Rightarrow> string list \<Rightarrow> error + dataset"
where
  "build_dataset w bb date fsys grbfiles =
     (case grbfiles of
        [] \<Rightarrow> Inl IndexError
      | first # _ \<Rightarrow>
          and_then (modified_latlon w bb fsys first) (\<lambda>ll.
          and_then (extract_all w ll fsys grbfiles (\<lambda>v. [])) (\<lambda>s.
          and_then
            (xr_Dataset
               [(''stmp'', s Stmp), (''spfh'', s Spfh), (''uwind'', s Uwind),
                (''vwind'', s Vwind), (''prmsl'', s Prmsl), (''prate'', s Prate),
                (''dlwrf'', s Dlwrf), (''dswrf'', s Dswrf)]
               (time_coord w (length grbfiles)) (lon_grid ll) (lat_grid ll))
            (\<lambda>fout. Inr (assign_attrs date fout)))))"

definition output_file :: "cycle_date \<Rightarrow> string" where
  "output_file date =
     strftime_Ymd date @ ''/gfs_'' @ strftime_Ymd date @ fmt_0d 2 (hour date) @ ''.nc''"

text \<open>
  Lines 110-261. The inventory is built with the default product \<^verbatim>\<open>atmos\<close>; the output
  directory is created before anything is read; \<^verbatim>\<open>to_netcdf\<close> is the last statement and
  is modelled as writing the whole file.
\<close>

definition gen_sflux ::
  "world \<Rightarrow> bbox \<Rightarrow> cycle_date \<Rightarrow> int \<Rightarrow> string option \<Rightarrow> state \<Rightarrow> (error + unit) \<times> state"
where
  "gen_sflux w bb date record scr st =
     (case AWSGrib2Inventory w date record scr ''atmos'' st of
        (Inl e, st1) \<Rightarrow> (Inl e, st1)
      | (Inr inventory, st1) \<Rightarrow>
          (let grbfiles = files inventory st1;
               st2 = st1\<lparr>dirs := List.insert (strftime_Ymd date) (dirs st1)\<rparr>
           in case build_dataset w bb date (fs st2) grbfiles of
                Inl e \<Rightarrow> (Inl e, st2)
              | Inr fout \<Rightarrow>
                  (Inr (),
                   st2\<lparr>netcdf := AList.update (output_file date) fout (netcdf st2)\<rparr>)))"

subsection \<open>A small forecast cycle, for the examples\<close>

text \<open>
  The cycle of 2023-01-01 00Z. The remote names follow the bucket's convention; the decoder
  of the examples returns a native grid of six longitudes and four latitudes (descending),
  the same field for every variable, shifted by the forecast hour, and raises on a file
  without content.
\<close>

definition day0 :: cycle_date where
  "day0 = \<lparr>year = 2023, month = 1, day = 1, hour = 0\<rparr>"

definition key0 :: "string \<Rightarrow> string" where
  "key0 name = ''gfs.20230101/00/atmos/gfs.t00z.'' @ name"

definition objects0 :: "string list \<Rightarrow> s3_object list" where
  "objects0 names = map (\<lambda>name. \<lparr>Key = key0 name, Size = 1\<rparr>) names"

definition field0 :: "bytes \<Rightarrow> real list list" where
  "field0 content =
     (let t = (if str_in ''f001'' content then 100 else if str_in ''f002'' content then 200
               else if str_in ''f003'' content then 300 else 0)
      in map (\<lambda>i. map (\<lambda>j. t + 10 * i + j) [0, 1, 2, 3, 4, 5]) [0, 1, 2, 3])"

definition native0 :: "bytes \<Rightarrow> grib_dataset" where
  "native0 content =
     \<lparr>longitude = [0, 90, 180, 225, 270, 315],
      latitude = [60, 30, 0, - 30],
      data_vars =
        map (\<lambda>name. (name, field0 content))
          [''sh2'', ''t2m'', ''u10'', ''v10'', ''prmsl'', ''prate'', ''dlwrf'', ''dswrf'']\<rparr>"

definition decode0 :: "bytes \<Rightarrow> filter_key list \<Rightarrow> error + grib_dataset" where
  "decode0 content flt =
     (if content = [] then Inl (DecodeError ''No valid message found'')
      else Inr (native0 content))"

definition world0 :: "string list \<Rightarrow> (string \<Rightarrow> dl_result) \<Rightarrow> world" where
  "world0 names dl =
     \<lparr>paginate =
        (\<lambda>pre. if pre = ''gfs.20230101/00/atmos/''
               then Inr [\<lparr>Contents = Some (objects0 names)\<rparr>]
               else Inl (ListingError ''NoSuchKey'')),
      download_fileobj = dl,
      TemporaryDirectory = (\<lambda>scr. ''/tmp/tmpa1''),
      open_dataset = decode0,
      astype_float32 = (\<lambda>x. x)\<rparr>"

text \<open>The state before the run: one file that has nothing to do with the scratch directory.\<close>

definition state0 :: state where
  "state0 = \<lparr>fs = [(''/etc/hostname'', ''node1'')], dirs = [], download_log = [], netcdf = []\<rparr>"

definition bbox0 :: bbox where
  "bbox0 = \<lparr>xmin = - 140, xmax = - 85, ymin = - 5, ymax = 35\<rparr>"

text \<open>
  One decoded file on its own, a box that straddles the meridian of Greenwich, and the
  window of \<open>bbox0\<close> on the native grid of the examples.
\<close>

definition scratch0 :: "(string \<times> bytes) list" where
  "scratch0 = [(''f001.grib2'', ''GRIB f001'')]"

definition bbox_greenwich :: bbox where
  "bbox_greenwich = \<lparr>xmin = - 10, xmax = 10, ymin = - 5, ymax = 35\<rparr>"

definition latlon0 :: latlon where
  "latlon0 =
     \<lparr>lon_grid = [[- 135, - 90], [- 135, - 90]],
      lat_grid = [[0, 0], [30, 30]],
      idx_ymin = 1, idx_ymax = 2, idx_xmin = 3, idx_xmax = 4\<rparr>"

text \<open>A listing with hours 0 to 2 among auxiliary files; every download completes.\<close>

definition names_mixed :: "string list" where
  "names_mixed =
     [''pgrb2.0p25.f001'', ''pgrb2.0p25.anl'', ''pgrb2.0p25.f000'', ''pgrb2.0p25.f001.idx'',
      ''goessimpgrb2.0p25.f000'', ''pgrb2.0p25.f002'', ''pgrb2.1p00.f000'']"

definition world_ok :: world where
  "world_ok = world0 names_mixed Downloaded"

text \<open>
  What the run of \<open>world_ok\<close> leaves and writes: the file system after the two downloads,
  the two file names, and the dataset.
\<close>

definition fs_ok :: "(string \<times> bytes) list" where
  "fs_ok =
     [(''/etc/hostname'', ''node1''),
      (''/tmp/tmpa1/gfs.20230101/00/atmos/gfs.t00z.pgrb2.0p25.f001.grib2'',
       ''gfs.20230101/00/atmos/gfs.t00z.pgrb2.0p25.f001''),
      (''/tmp/tmpa1/gfs.20230101/00/atmos/gfs.t00z.pgrb2.0p25.f002.grib2'',
       ''gfs.20230101/00/atmos/gfs.t00z.pgrb2.0p25.f002'')]"

definition grbfiles_ok :: "string list" where
  "grbfiles_ok =
     [''/tmp/tmpa1/gfs.20230101/00/atmos/gfs.t00z.pgrb2.0p25.f001.grib2'',
      ''/tmp/tmpa1/gfs.20230101/00/atmos/gfs.t00z.pgrb2.0p25.f002.grib2'']"

definition dataset_ok :: dataset where
  "dataset_ok =
     assign_attrs day0
       \<lparr>variables =
          map (\<lambda>name.
                 (name, \<lparr>dims = [''time'', ''ny_grid'', ''nx_grid''],
                         array = Array3 [[[123, 124], [113, 114]], [[223, 224], [213, 214]]],
                         attrs = []\<rparr>))
            [''stmp'', ''spfh'', ''uwind'', ''vwind'', ''prmsl'', ''prate'', ''dlwrf'', ''dswrf''],
        coords =
          [(''time'', \<lparr>dims = [''time''], array = Array1 [417 / 10000, 833 / 10000],
                      attrs = []\<rparr>),
           (''lon'', \<lparr>dims = [''ny_grid'', ''nx_grid''], array = Array2 (lon_grid latlon0),
                     attrs = []\<rparr>),
           (''lat'', \<lparr>dims = [''ny_grid'', ''nx_grid''], array = Array2 (lat_grid latlon0),
                     attrs = []\<rparr>)]\<rparr>"

text \<open>Hours 0 to 3, where the download of hour 2 raises before it writes anything.\<close>

definition names_hourly :: "string list" where
  "names_hourly =
     [''pgrb2.0p25.f000'', ''pgrb2.0p25.f001'', ''pgrb2.0p25.f002'', ''pgrb2.0p25.f003'']"

definition world_fail :: world where
  "world_fail =
     world0 names_hourly
       (\<lambda>key. if key = key0 ''pgrb2.0p25.f002'' then DownloadRaised [] else Downloaded key)"

text \<open>
  A cycle that is still being uploaded: hours 0 and 1 of the \<^verbatim>\<open>pgrb2\<close> product and
  hour 0 of the \<^verbatim>\<open>pgrb2b\<close> product, which the filter keeps as well.
\<close>

definition fs_fail :: "(string \<times> bytes) list" where
  "fs_fail =
     [(''/etc/hostname'', ''node1''),
      (''/tmp/tmpa1/gfs.20230101/00/atmos/gfs.t00z.pgrb2.0p25.f001.grib2'',
       ''gfs.20230101/00/atmos/gfs.t00z.pgrb2.0p25.f001''),
      (''/tmp/tmpa1/gfs.20230101/00/atmos/gfs.t00z.pgrb2.0p25.f002.grib2'', []),
      (''/tmp/tmpa1/gfs.20230101/00/atmos/gfs.t00z.pgrb2.0p25.f003.grib2'',
       ''gfs.20230101/00/atmos/gfs.t00z.pgrb2.0p25.f003'')]"

definition names_partial :: "string list" where
  "names_partial = [''pgrb2.0p25.f000'', ''pgrb2.0p25.f001'', ''pgrb2b.0p25.f000'']"


definition inventory0 :: inventory where
  "inventory0 =
     \<lparr>start_date = day0, inv_record = 1, pscr = None, product = ''atmos'',
      tmpdir = ''/tmp/tmpa1''\<rparr>"

text \<open>A naming of the hours of the cycle: the three-digit forecast hour ends the key.\<close>

definition hour_key0 :: "nat \<Rightarrow> string" where
  "hour_key0 h = key0 (''pgrb2.0p25.f'' @ fmt_0d 3 h)"

section \<open>Properties of the listing filter and of the download slice\<close>

lemma str_in_sublist: "str_in a b \<longleftrightarrow> sublist a b"
  by (induction b) (simp_all add: sublist_Cons_right)

lemma keep_key_sublist:
  "keep_key k \<longleftrightarrow>
     sublist ''0p25'' k \<and> sublist ''pgrb2'' k \<and> \<not> sublist ''goessim'' k
     \<and> \<not> sublist ''anl'' k \<and> \<not> sublist ''idx'' k"
  by (simp only: keep_key_def str_in_sublist)

lemma keep_key_fun:
  "keep_key =
     (\<lambda>k. sublist ''0p25'' k \<and> sublist ''pgrb2'' k \<and> \<not> sublist ''goessim'' k
          \<and> \<not> sublist ''anl'' k \<and> \<not> sublist ''idx'' k)"
  by (rule ext) (rule keep_key_sublist)

text \<open>
  C3. Whatever the listing holds, the filtered list is sorted ascending and holds exactly
  the keys of the listing that contain both \<^verbatim>\<open>0p25\<close> and \<^verbatim>\<open>pgrb2\<close> and none of
  \<^verbatim>\<open>goessim\<close>, \<^verbatim>\<open>anl\<close>, \<^verbatim>\<open>idx\<close>, each as often as the listing has it.
\<close>

theorem file_metadata_filter_sorted:
  "sorted (file_metadata data)
   \<and> set (file_metadata data) =
       {k \<in> Key ` set data.
          sublist ''0p25'' k \<and> sublist ''pgrb2'' k \<and> \<not> sublist ''goessim'' k
          \<and> \<not> sublist ''anl'' k \<and> \<not> sublist ''idx'' k}
   \<and> mset (file_metadata data) =
       filter_mset
         (\<lambda>k. sublist ''0p25'' k \<and> sublist ''pgrb2'' k \<and> \<not> sublist ''goessim'' k
              \<and> \<not> sublist ''anl'' k \<and> \<not> sublist ''idx'' k)
         (mset (map Key data))"
proof -
  have flt: "map Key (filter (\<lambda>obj. keep_key (Key obj)) data) = filter keep_key (map Key data)"
    by (simp add: filter_map comp_def)
  have "sorted (file_metadata data)"
    by (simp add: file_metadata_def)
  moreover have "set (file_metadata data) = {k \<in> Key ` set data. keep_key k}"
    unfolding file_metadata_def flt by auto
  moreover have "mset (file_metadata data) = filter_mset keep_key (mset (map Key data))"
    unfolding file_metadata_def flt by simp
  ultimately show ?thesis
    unfolding keep_key_fun by blast
qed

subsection \<open>Evaluating the example cycle\<close>

lemmas eval_names = objects0_def key0_def names_mixed_def names_hourly_def names_partial_def
lemmas eval_listing = file_metadata_def keep_key_def selected_keys_def py_slice_def slice_bound_def
lemmas eval_date = day0_def remote_prefix_def strftime_Ymd_def fmt_0d_def decimal.simps
  digit_char_def hourly_name_def
lemmas eval_inventory = AWSGrib2Inventory_def world0_def and_then_def local_path_def
  download_one_def state0_def Let_def inventory0_def

lemma file_metadata_mixed:
  "file_metadata (objects0 names_mixed) =
     [key0 ''pgrb2.0p25.f000'', key0 ''pgrb2.0p25.f001'', key0 ''pgrb2.0p25.f002'']"
  by (simp add: eval_names eval_listing)

lemma file_metadata_hourly:
  "file_metadata (objects0 names_hourly) =
     [key0 ''pgrb2.0p25.f000'', key0 ''pgrb2.0p25.f001'', key0 ''pgrb2.0p25.f002'', key0 ''pgrb2.0p25.f003'']"
  by (simp add: eval_names eval_listing)


lemma listed0:
  "and_then (paginate (world0 names dl) (remote_prefix day0 ''atmos'')) collect_pages = Inr (objects0 names)"
  by (simp add: eval_date eval_inventory)

lemma init_fail:
  "AWSGrib2Inventory world_fail day0 1 None ''atmos'' state0 =
    (Inr inventory0,
     \<lparr>fs = [(''/etc/hostname'', ''node1''),
            (''/tmp/tmpa1/gfs.20230101/00/atmos/gfs.t00z.pgrb2.0p25.f001.grib2'',
             ''gfs.20230101/00/atmos/gfs.t00z.pgrb2.0p25.f001''),
            (''/tmp/tmpa1/gfs.20230101/00/atmos/gfs.t00z.pgrb2.0p25.f002.grib2'', []),
            (''/tmp/tmpa1/gfs.20230101/00/atmos/gfs.t00z.pgrb2.0p25.f003.grib2'',
             ''gfs.20230101/00/atmos/gfs.t00z.pgrb2.0p25.f003'')],
       dirs = [],
       download_log =
         [''Downloading file gfs.20230101/00/atmos/gfs.t00z.pgrb2.0p25.f001, '',
          ''Downloading file gfs.20230101/00/atmos/gfs.t00z.pgrb2.0p25.f002, '',
          ''file gfs.20230101/00/atmos/gfs.t00z.pgrb2.0p25.f002 is not available'',
          ''Downloading file gfs.20230101/00/atmos/gfs.t00z.pgrb2.0p25.f003, ''],
       netcdf = []\<rparr>)"
  unfolding AWSGrib2Inventory_def world_fail_def listed0
  by (simp add: file_metadata_hourly Let_def selected_keys_def py_slice_def slice_bound_def
      world0_def local_path_def download_one_def state0_def inventory0_def key0_def)
lemma hourly_name0:
  "hourly_name day0 ''atmos'' = ''gfs.20230101/00/atmos/gfs.t00z.pgrb2.0p25.f''"
  by (simp add: eval_date)

lemma files_fail:
  "files inventory0 (snd (AWSGrib2Inventory world_fail day0 1 None ''atmos'' state0)) =
     [''/tmp/tmpa1/gfs.20230101/00/atmos/gfs.t00z.pgrb2.0p25.f001.grib2'',
      ''/tmp/tmpa1/gfs.20230101/00/atmos/gfs.t00z.pgrb2.0p25.f002.grib2'',
      ''/tmp/tmpa1/gfs.20230101/00/atmos/gfs.t00z.pgrb2.0p25.f003.grib2'']"
  unfolding init_fail
  by (simp add: files_def inventory0_def hourly_name0 glob_star_def suffix_to_prefix)



text \<open>The filter on the mixed listing of the example keeps the three hourly keys.\<close>

theorem file_metadata_filter_sorted_witness:
  "sorted (file_metadata (objects0 names_mixed))
   \<and> set (file_metadata (objects0 names_mixed)) =
       {''gfs.20230101/00/atmos/gfs.t00z.pgrb2.0p25.f000'',
        ''gfs.20230101/00/atmos/gfs.t00z.pgrb2.0p25.f001'',
        ''gfs.20230101/00/atmos/gfs.t00z.pgrb2.0p25.f002''}"
  using file_metadata_filter_sorted [of "objects0 names_mixed"]
  by (simp add: file_metadata_mixed key0_def)

subsection \<open>The download slice\<close>

lemma selected_keys_nonneg:
  assumes "0 \<le> record"
  shows "selected_keys record fm = take (nat (record * 24)) (tl fm)"
proof -
  have "nat (record * 24 + 1) = Suc (nat (record * 24))"
    using assms by (simp add: nat_add_distrib)
  then show ?thesis
    using assms
    by (cases fm) (simp_all add: selected_keys_def py_slice_def slice_bound_def drop_Suc
        min_def take_Suc_Cons tl_take drop_take)
qed

lemma file_metadata_all_kept:
  assumes listing: "mset (map Key data) = mset (map key_of [0..<Suc N])"
    and valid: "\<forall>h\<le>N. keep_key (key_of h)"
    and order: "\<forall>i j. i < j \<and> j \<le> N \<longrightarrow> key_of i < key_of j"
  shows "file_metadata data = map key_of [0..<Suc N]"
proof -
  have "set (map Key data) = set (map key_of [0..<Suc N])"
    using listing by (metis set_mset_mset)
  then have keys: "Key ` set data = key_of ` {0..N}"
    by (simp only: set_map set_upt atLeastLessThanSuc_atLeastAtMost)
  have "\<forall>obj\<in>set data. keep_key (Key obj)"
  proof
    fix obj assume "obj \<in> set data"
    then have "Key obj \<in> key_of ` {0..N}" using keys by blast
    then show "keep_key (Key obj)" using valid by auto
  qed
  then have kept: "filter (\<lambda>obj. keep_key (Key obj)) data = data"
    by simp
  have "sorted_wrt (<) (map key_of [0..<Suc N])"
    using order by (auto simp: sorted_wrt_map sorted_wrt_iff_nth_less simp del: upt_Suc)
  then have "sorted (map key_of [0..<Suc N])"
    by (rule strict_sorted_imp_sorted)
  with listing have "sort (map Key data) = map key_of [0..<Suc N]"
    by (intro properties_for_sort) simp_all
  then show ?thesis
    by (simp add: file_metadata_def kept)
qed


text \<open>
  C2. Let the listing hold exactly one key for each forecast hour \<open>0..N\<close>, in any order,
  every one of them kept by the filter, named so that the lexical order of the keys is the
  order of the hours. For a forecast-day count \<open>record \<ge> 0\<close> the slice that is downloaded
  starts at the second entry of the sorted list, holds the keys of the hours
  \<open>1..min N (record * 24)\<close> in this order, so exactly \<open>min N (record * 24)\<close> keys, and the
  key of hour 0 is not among them.
\<close>

theorem selected_keys_skip_hour0:
  assumes rec: "0 \<le> record"
    and listing: "mset (map Key data) = mset (map key_of [0..<Suc N])"
    and valid: "\<forall>h\<le>N. keep_key (key_of h)"
    and order: "\<forall>i j. i < j \<and> j \<le> N \<longrightarrow> key_of i < key_of j"
  shows "file_metadata data = map key_of [0..<Suc N]
       \<and> selected_keys record (file_metadata data) =
           take (min N (nat (record * 24))) (tl (file_metadata data))
       \<and> selected_keys record (file_metadata data) =
           map key_of [1..<Suc (min N (nat (record * 24)))]
       \<and> length (selected_keys record (file_metadata data)) = min N (nat (record * 24))
       \<and> key_of 0 \<notin> set (selected_keys record (file_metadata data))"
proof -
  let ?m = "min N (nat (record * 24))"
  have fm: "file_metadata data = map key_of [0..<Suc N]"
    using listing valid order by (rule file_metadata_all_kept)
  have tl: "tl (map key_of [0..<Suc N]) = map key_of [1..<Suc N]"
    by (simp add: map_tl upt_conv_Cons del: upt_Suc)
  have sel: "selected_keys record (file_metadata data) = take (nat (record * 24)) (tl (file_metadata data))"
    using rec by (rule selected_keys_nonneg)
  have "length (tl (file_metadata data)) = N" by (simp add: fm)
  then have a: "take (nat (record * 24)) (tl (file_metadata data)) = take ?m (tl (file_metadata data))"
    by (simp add: min_def)
  have b: "take ?m (tl (file_metadata data)) = map key_of [1..<Suc ?m]"
    unfolding fm tl by (simp add: take_map take_upt min_def del: upt_Suc)
  have c: "key_of 0 \<notin> set (map key_of [1..<Suc ?m])"
  proof
    assume "key_of 0 \<in> set (map key_of [1..<Suc ?m])"
    then obtain h where h: "1 \<le> h" "h \<le> N" "key_of h = key_of 0"
      by (auto simp del: upt_Suc)
    then have "0 < h \<and> h \<le> N" by simp
    with order have "key_of 0 < key_of h" by blast
    with h show False by simp
  qed
  have d: "selected_keys record (file_metadata data) = map key_of [1..<Suc ?m]"
    using sel a b by simp
  have e: "length (map key_of [1..<Suc ?m]) = ?m"
    by (simp del: upt_Suc)
  have s1: "selected_keys record (file_metadata data) = take ?m (tl (file_metadata data))"
    using sel a by simp
  show ?thesis
  proof (intro conjI)
    show "file_metadata data = map key_of [0..<Suc N]" by (rule fm)
    show "selected_keys record (file_metadata data) = take ?m (tl (file_metadata data))"
      by (rule s1)
    show "selected_keys record (file_metadata data) = map key_of [1..<Suc ?m]"
      by (rule d)
    show "length (selected_keys record (file_metadata data)) = ?m"
      by (simp only: d e)
    show "key_of 0 \<notin> set (selected_keys record (file_metadata data))"
      unfolding d by (rule c)
  qed
qed


text \<open>Hours 0 to 3 listed out of order, one forecast day: hours 1, 2 and 3 are selected.\<close>

lemma hour_key0_simps:
  "hour_key0 0 = ''gfs.20230101/00/atmos/gfs.t00z.pgrb2.0p25.f000''"
  "hour_key0 1 = ''gfs.20230101/00/atmos/gfs.t00z.pgrb2.0p25.f001''"
  "hour_key0 (Suc 0) = ''gfs.20230101/00/atmos/gfs.t00z.pgrb2.0p25.f001''"
  "hour_key0 2 = ''gfs.20230101/00/atmos/gfs.t00z.pgrb2.0p25.f002''"
  "hour_key0 3 = ''gfs.20230101/00/atmos/gfs.t00z.pgrb2.0p25.f003''"
  by (simp_all add: hour_key0_def key0_def fmt_0d_def decimal.simps digit_char_def numeral_2_eq_2)

lemma upto3: "h \<le> (3::nat) \<longleftrightarrow> h = 0 \<or> h = 1 \<or> h = 2 \<or> h = 3"
  by auto

theorem selected_keys_skip_hour0_witness:
  "selected_keys 1 (file_metadata (objects0 [''pgrb2.0p25.f002'', ''pgrb2.0p25.f000'',
       ''pgrb2.0p25.f003'', ''pgrb2.0p25.f001''])) =
     [''gfs.20230101/00/atmos/gfs.t00z.pgrb2.0p25.f001'',
      ''gfs.20230101/00/atmos/gfs.t00z.pgrb2.0p25.f002'',
      ''gfs.20230101/00/atmos/gfs.t00z.pgrb2.0p25.f003'']
   \<and> hour_key0 0 \<notin> set (selected_keys 1 (file_metadata (objects0 [''pgrb2.0p25.f002'',
       ''pgrb2.0p25.f000'', ''pgrb2.0p25.f003'', ''pgrb2.0p25.f001''])))"
proof -
  let ?data = "objects0 [''pgrb2.0p25.f002'', ''pgrb2.0p25.f000'', ''pgrb2.0p25.f003'',
    ''pgrb2.0p25.f001'']"
  have upt: "[0..<Suc 3] = [0, 1, 2, 3]" "[1..<Suc 3] = [1, 2, 3]"
    "[0..<4] = [0, 1, 2, 3]" "[1..<4] = [1, 2, 3]" "[Suc 0..<4] = [1, 2, 3]"
    by (simp_all add: upt_rec)
  have rec: "(0::int) \<le> 1" by simp
  have "map hour_key0 [0..<Suc 3] = [hour_key0 0, hour_key0 1, hour_key0 2, hour_key0 3]"
    by (simp only: upt list.map)
  then have listing: "mset (map Key ?data) = mset (map hour_key0 [0..<Suc 3])"
    by (simp only: hour_key0_simps) (simp add: objects0_def key0_def)
  have valid: "\<forall>h\<le>3. keep_key (hour_key0 h)"
    by (simp add: upto3 hour_key0_simps keep_key_def)
  have order: "\<forall>i j. i < j \<and> j \<le> 3 \<longrightarrow> hour_key0 i < hour_key0 j"
  proof (intro allI impI)
    fix i j :: nat assume "i < j \<and> j \<le> 3"
    then have "(i = 0 \<and> j = 1) \<or> (i = 0 \<and> j = 2) \<or> (i = 0 \<and> j = 3) \<or> (i = 1 \<and> j = 2)
        \<or> (i = 1 \<and> j = 3) \<or> (i = 2 \<and> j = 3)"
      by auto
    then show "hour_key0 i < hour_key0 j"
      by (elim disjE conjE) (simp_all add: hour_key0_simps)
  qed
  note main = selected_keys_skip_hour0 [OF rec listing valid order]
  have a: "selected_keys 1 (file_metadata ?data) = map hour_key0 [1..<Suc (min 3 (nat (1 * 24)))]"
    using main by blast
  have b: "hour_key0 0 \<notin> set (selected_keys 1 (file_metadata ?data))"
    using main by blast
  have c: "map hour_key0 [1..<Suc (min 3 (nat (1 * 24)))] =
      [''gfs.20230101/00/atmos/gfs.t00z.pgrb2.0p25.f001'',
       ''gfs.20230101/00/atmos/gfs.t00z.pgrb2.0p25.f002'',
       ''gfs.20230101/00/atmos/gfs.t00z.pgrb2.0p25.f003'']"
    by (simp add: upt hour_key0_simps del: upt_Suc)
  show ?thesis
    by (intro conjI) (rule trans [OF a c], rule b)
qed


section \<open>Properties of the download loop and of the file list\<close>

lemma paths_download_one:
  "map fst (fs (download_one w tmp key st)) =
     (if local_path tmp key \<in> set (map fst (fs st)) then map fst (fs st)
      else map fst (fs st) @ [local_path tmp key])"
  by (cases "download_fileobj w key") (simp_all add: download_one_def Let_def update_keys)


lemma rest_download_one:
  "netcdf (download_one w tmp key st) = netcdf st \<and> dirs (download_one w tmp key st) = dirs st"
  by (cases "download_fileobj w key") (simp_all add: download_one_def Let_def)

lemma rest_download_loop:
  "netcdf (download_loop w tmp keys st) = netcdf st \<and> dirs (download_loop w tmp keys st) = dirs st"
  by (induction keys arbitrary: st) (simp_all add: rest_download_one)





lemma paths_kept_loop:
  "p \<in> set (map fst (fs s)) \<Longrightarrow> p \<in> set (map fst (fs (download_loop w tmp keys s)))"
proof (induction keys arbitrary: s)
  case Nil
  then show ?case by simp
next
  case (Cons k keys)
  have "p \<in> set (map fst (fs (download_one w tmp k s)))"
    using Cons.prems by (simp add: paths_download_one)
  then show ?case using Cons.IH by simp
qed

lemma exists_download_loop:
  "key \<in> set keys \<Longrightarrow> local_path tmp key \<in> set (map fst (fs (download_loop w tmp keys st)))"
proof (induction keys arbitrary: st)
  case Nil
  then show ?case by simp
next
  case (Cons k keys)
  show ?case
  proof (cases "key = k")
    case True
    have "local_path tmp k \<in> set (map fst (fs (download_one w tmp k st)))"
      by (simp add: paths_download_one)
    then show ?thesis using True paths_kept_loop by simp
  next
    case False
    then show ?thesis using Cons by simp
  qed
qed







section \<open>Properties of the grid window\<close>

lemma set_np_where: "set (np_where P xs) = {i. i < length xs \<and> P (xs ! i)}"
  by (auto simp: np_where_def)


lemma modified_latlon_result:
  fixes bb :: bbox
  assumes "open_file w fsys grbfile [stepType ''instant'', typeOfLevel ''surface''] = Inr ds"
  defines "lon \<equiv> map (astype_float32 w) (longitude ds)"
    and "lat \<equiv> map (astype_float32 w) (latitude ds)"
  defines "lon_idxs \<equiv>
      np_where (\<lambda>v. (if xmin bb < 0 then xmin bb + 360 else xmin bb) - 1 \<le> v
                  \<and> v \<le> (if xmax bb < 0 then xmax bb + 360 else xmax bb) + 1) lon"
    and "lat_idxs \<equiv> np_where (\<lambda>v. ymin bb - 1 \<le> v \<and> v \<le> ymax bb + 1) lat"
  shows "modified_latlon w bb fsys grbfile =
     (if lat_idxs = [] \<or> lon_idxs = [] then Inl IndexError
      else Inr \<lparr>lon_grid =
                  map (\<lambda>i. map (\<lambda>j. if 180 < lon ! j then lon ! j - 360 else lon ! j) lon_idxs)
                    (rev lat_idxs),
                lat_grid = map (\<lambda>i. map (\<lambda>j. lat ! i) lon_idxs) (rev lat_idxs),
                idx_ymin = hd lat_idxs, idx_ymax = last lat_idxs,
                idx_xmin = hd lon_idxs, idx_xmax = last lon_idxs\<rparr>)"
  unfolding modified_latlon_def assms and_then_def
  by (simp add: Let_def meshgrid_def rev_map comp_def)


lemma open_scratch0:
  "open_file world_ok scratch0 ''f001.grib2'' flt = Inr (native0 ''GRIB f001'')"
  by (simp add: open_file_def scratch0_def world_ok_def world0_def decode0_def)

lemma latlon_scratch0:
  "modified_latlon world_ok bbox0 scratch0 ''f001.grib2'' = Inr latlon0"
  unfolding modified_latlon_def open_scratch0
  by (simp add: and_then_def native0_def bbox0_def world_ok_def world0_def np_where_def
      meshgrid_def Let_def latlon0_def)






text \<open>
  C5. If every native longitude, as the decoder gives it after the cast, lies in
  \<open>(-180, 540]\<close>, which holds for the native range from 0 up to 360, then every value of
  the longitude grid lies in \<open>(-180, 180]\<close>. And a box whose \<open>xmin\<close> is negative, not
  below -360, gives the same result (the four indices and both grids, or the same error) as
  the box with \<open>xmin + 360\<close>.
\<close>

theorem modified_latlon_longitudes:
  "(open_file w fsys grbfile [stepType ''instant'', typeOfLevel ''surface''] = Inr ds
      \<and> (\<forall>v\<in>set (map (astype_float32 w) (longitude ds)). - 180 < v \<and> v \<le> 540)
      \<and> modified_latlon w bb fsys grbfile = Inr ll
    \<longrightarrow> (\<forall>row\<in>set (lon_grid ll). \<forall>v\<in>set row. - 180 < v \<and> v \<le> 180))
   \<and> (- 360 \<le> xmin bb \<and> xmin bb < 0
    \<longrightarrow> modified_latlon w (bb\<lparr>xmin := xmin bb + 360\<rparr>) fsys grbfile
          = modified_latlon w bb fsys grbfile)"
proof (intro conjI impI)
  assume h: "open_file w fsys grbfile [stepType ''instant'', typeOfLevel ''surface''] = Inr ds
      \<and> (\<forall>v\<in>set (map (astype_float32 w) (longitude ds)). - 180 < v \<and> v \<le> 540)
      \<and> modified_latlon w bb fsys grbfile = Inr ll"
  let ?lon = "map (astype_float32 w) (longitude ds)"
  from h have op: "open_file w fsys grbfile [stepType ''instant'', typeOfLevel ''surface''] = Inr ds"
    and range: "\<forall>v\<in>set ?lon. - 180 < v \<and> v \<le> 540"
    and ok: "modified_latlon w bb fsys grbfile = Inr ll"
    by blast+
  note r = modified_latlon_result [OF op, of bb]
  show "\<forall>row\<in>set (lon_grid ll). \<forall>v\<in>set row. - 180 < v \<and> v \<le> 180"
  proof (intro ballI)
    fix row v assume row: "row \<in> set (lon_grid ll)" and v: "v \<in> set row"
    from ok r row v obtain j where j: "j < length ?lon"
      and veq: "v = (if 180 < ?lon ! j then ?lon ! j - 360 else ?lon ! j)"
      by (auto simp: set_np_where split: if_splits)
    from j have "?lon ! j \<in> set ?lon" by (rule nth_mem)
    with range have "- 180 < ?lon ! j \<and> ?lon ! j \<le> 540" by blast
    then show "- 180 < v \<and> v \<le> 180" unfolding veq by auto
  qed
next
  assume "- 360 \<le> xmin bb \<and> xmin bb < 0"
  then show "modified_latlon w (bb\<lparr>xmin := xmin bb + 360\<rparr>) fsys grbfile
          = modified_latlon w bb fsys grbfile"
    by (simp add: modified_latlon_def)
qed

text \<open>On the native grid of the examples, \<open>xmin = -140\<close> and \<open>xmin = 220\<close> give one window.\<close>

theorem modified_latlon_longitudes_witness:
  "modified_latlon world_ok bbox0 scratch0 ''f001.grib2'' = Inr latlon0
   \<and> list_all (list_all (\<lambda>v. - 180 < v \<and> v \<le> 180)) (lon_grid latlon0)
   \<and> xmin bbox0 = - 140
   \<and> modified_latlon world_ok (bbox0\<lparr>xmin := 220\<rparr>) scratch0 ''f001.grib2'' = Inr latlon0"
proof -
  note main = modified_latlon_longitudes [of world_ok scratch0 "''f001.grib2''"
      "native0 ''GRIB f001''" bbox0 latlon0]
  have range: "\<forall>v\<in>set (map (astype_float32 world_ok) (longitude (native0 ''GRIB f001''))).
      - 180 < v \<and> v \<le> 540"
    by (simp add: native0_def world_ok_def world0_def)
  from main open_scratch0 range latlon_scratch0
  have "\<forall>row\<in>set (lon_grid latlon0). \<forall>v\<in>set row. - 180 < v \<and> v \<le> 180"
    by blast
  then have a: "list_all (list_all (\<lambda>v. - 180 < v \<and> v \<le> 180)) (lon_grid latlon0)"
    by (simp add: list_all_iff)
  have x: "xmin bbox0 = - 140" by (simp add: bbox0_def)
  then have "- 360 \<le> xmin bbox0 \<and> xmin bbox0 < 0" by simp
  with main have "modified_latlon world_ok (bbox0\<lparr>xmin := xmin bbox0 + 360\<rparr>) scratch0 ''f001.grib2''
      = modified_latlon world_ok bbox0 scratch0 ''f001.grib2''"
    by blast
  then have b: "modified_latlon world_ok (bbox0\<lparr>xmin := 220\<rparr>) scratch0 ''f001.grib2'' = Inr latlon0"
    by (simp add: x latlon_scratch0)
  show ?thesis using a b x latlon_scratch0 by blast
qed


subsection \<open>The rows of a field and the rows of the latitude grid\<close>







section \<open>Properties of the extraction and of the written dataset\<close>

subsection \<open>What a successful run has done\<close>

lemma and_then_InrE:
  assumes "and_then m f = Inr y"
  obtains x where "m = Inr x" "f x = Inr y"
  using assms by (cases m) (simp_all add: and_then_def)

lemma read_var_InrE:
  assumes "read_var w ll ds key2 v s = Inr s'"
  obtains a where "map_of (data_vars ds) key2 = Some a" "s' = s(v := s v @ [window_slice w ll a])"
  using assms by (cases "map_of (data_vars ds) key2") (simp_all add: read_var_def)

lemma decodedI:
  "open_file w fsys grb (var_filter v) = Inr ds \<Longrightarrow> map_of (data_vars ds) (var_key v) = Some a
     \<Longrightarrow> decoded w fsys grb v = Inr a"
  by (simp add: decoded_def and_then_def)

lemma extract_file_Inr:
  assumes "extract_file w ll fsys grb s = Inr s'"
  shows "\<exists>a. decoded w fsys grb v = Inr a \<and> s' v = s v @ [window_slice w ll a]"
proof -
  from assms obtain d1 s1 d2 s2 d3 s3 d4 s4 d5 s5 d6 s6 d7 s7 where
    o1: "open_file w fsys grb [paramId 174096] = Inr d1" and r1: "read_var w ll d1 ''sh2'' Spfh s = Inr s1" and
    o2: "open_file w fsys grb [paramId 167] = Inr d2" and r2: "read_var w ll d2 ''t2m'' Stmp s1 = Inr s2" and
    o3: "open_file w fsys grb [paramId 165] = Inr d3" and r3: "read_var w ll d3 ''u10'' Uwind s2 = Inr s3" and
    o4: "open_file w fsys grb [paramId 166] = Inr d4" and r4: "read_var w ll d4 ''v10'' Vwind s3 = Inr s4" and
    o5: "open_file w fsys grb [typeOfLevel ''meanSea''] = Inr d5" and r5: "read_var w ll d5 ''prmsl'' Prmsl s4 = Inr s5" and
    o6: "open_file w fsys grb [stepType ''instant'', typeOfLevel ''surface''] = Inr d6" and
    r6: "read_var w ll d6 ''prate'' Prate s5 = Inr s6" and
    o7: "open_file w fsys grb [stepType ''avg'', typeOfLevel ''surface''] = Inr d7" and
    r7: "read_var w ll d7 ''dlwrf'' Dlwrf s6 = Inr s7" and
    r8: "read_var w ll d7 ''dswrf'' Dswrf s7 = Inr s'"
    unfolding extract_file_def by (elim and_then_InrE) blast
  from r1 obtain a1 where a1: "map_of (data_vars d1) ''sh2'' = Some a1" "s1 = s(Spfh := s Spfh @ [window_slice w ll a1])"
    by (rule read_var_InrE)
  from r2 obtain a2 where a2: "map_of (data_vars d2) ''t2m'' = Some a2" "s2 = s1(Stmp := s1 Stmp @ [window_slice w ll a2])"
    by (rule read_var_InrE)
  from r3 obtain a3 where a3: "map_of (data_vars d3) ''u10'' = Some a3" "s3 = s2(Uwind := s2 Uwind @ [window_slice w ll a3])"
    by (rule read_var_InrE)
  from r4 obtain a4 where a4: "map_of (data_vars d4) ''v10'' = Some a4" "s4 = s3(Vwind := s3 Vwind @ [window_slice w ll a4])"
    by (rule read_var_InrE)
  from r5 obtain a5 where a5: "map_of (data_vars d5) ''prmsl'' = Some a5" "s5 = s4(Prmsl := s4 Prmsl @ [window_slice w ll a5])"
    by (rule read_var_InrE)
  from r6 obtain a6 where a6: "map_of (data_vars d6) ''prate'' = Some a6" "s6 = s5(Prate := s5 Prate @ [window_slice w ll a6])"
    by (rule read_var_InrE)
  from r7 obtain a7 where a7: "map_of (data_vars d7) ''dlwrf'' = Some a7" "s7 = s6(Dlwrf := s6 Dlwrf @ [window_slice w ll a7])"
    by (rule read_var_InrE)
  from r8 obtain a8 where a8: "map_of (data_vars d7) ''dswrf'' = Some a8" "s' = s7(Dswrf := s7 Dswrf @ [window_slice w ll a8])"
    by (rule read_var_InrE)
  have s': "s' = s(Spfh := s Spfh @ [window_slice w ll a1], Stmp := s Stmp @ [window_slice w ll a2],
      Uwind := s Uwind @ [window_slice w ll a3], Vwind := s Vwind @ [window_slice w ll a4],
      Prmsl := s Prmsl @ [window_slice w ll a5], Prate := s Prate @ [window_slice w ll a6],
      Dlwrf := s Dlwrf @ [window_slice w ll a7], Dswrf := s Dswrf @ [window_slice w ll a8])"
    by (simp add: a1 a2 a3 a4 a5 a6 a7 a8)
  show ?thesis
  proof (cases v)
    case Stmp
    then show ?thesis using decodedI [of w fsys grb Stmp d2 a2] o2 a2(1) by (simp add: s')
  next
    case Spfh
    then show ?thesis using decodedI [of w fsys grb Spfh d1 a1] o1 a1(1) by (simp add: s')
  next
    case Uwind
    then show ?thesis using decodedI [of w fsys grb Uwind d3 a3] o3 a3(1) by (simp add: s')
  next
    case Vwind
    then show ?thesis using decodedI [of w fsys grb Vwind d4 a4] o4 a4(1) by (simp add: s')
  next
    case Prmsl
    then show ?thesis using decodedI [of w fsys grb Prmsl d5 a5] o5 a5(1) by (simp add: s')
  next
    case Prate
    then show ?thesis using decodedI [of w fsys grb Prate d6 a6] o6 a6(1) by (simp add: s')
  next
    case Dlwrf
    then show ?thesis using decodedI [of w fsys grb Dlwrf d7 a7] o7 a7(1) by (simp add: s')
  next
    case Dswrf
    then show ?thesis using decodedI [of w fsys grb Dswrf d7 a8] o7 a8(1) by (simp add: s')
  qed
qed

lemma extract_all_Inr:
  assumes "extract_all w ll fsys grbfiles s = Inr s'"
  shows "\<exists>as. list_all2 (\<lambda>grb a. decoded w fsys grb v = Inr a) grbfiles as
            \<and> s' v = s v @ map (window_slice w ll) as"
  using assms
proof (induction grbfiles arbitrary: s)
  case Nil
  then show ?case by simp
next
  case (Cons grb rest)
  from Cons.prems obtain s1 where s1: "extract_file w ll fsys grb s = Inr s1"
    and rest: "extract_all w ll fsys rest s1 = Inr s'"
    by (auto split: sum.splits)
  from extract_file_Inr [OF s1, of v] obtain a where
    a: "decoded w fsys grb v = Inr a" "s1 v = s v @ [window_slice w ll a]" by blast
  from Cons.IH [OF rest] obtain as where
    as: "list_all2 (\<lambda>grb a. decoded w fsys grb v = Inr a) rest as" "s' v = s1 v @ map (window_slice w ll) as"
    by blast
  have "list_all2 (\<lambda>grb a. decoded w fsys grb v = Inr a) (grb # rest) (a # as)"
    using a(1) as(1) by simp
  moreover have "s' v = s v @ map (window_slice w ll) (a # as)"
    using a(2) as(2) by simp
  ultimately show ?case by blast
qed

lemma state_after_inventory:
  assumes "AWSGrib2Inventory w date record scr family st = (r, st1)"
  shows "netcdf st1 = netcdf st \<and> dirs st1 = dirs st"
  using assms
  by (auto simp: AWSGrib2Inventory_def Let_def rest_download_loop split: sum.splits)

lemma gen_sflux_InrE:
  assumes "gen_sflux w bb date record scr st = (Inr (), st')"
  obtains inventory st1 fout where
    "AWSGrib2Inventory w date record scr ''atmos'' st = (Inr inventory, st1)"
    "build_dataset w bb date (fs st1) (files inventory st1) = Inr fout"
    "st' = st1\<lparr>dirs := List.insert (strftime_Ymd date) (dirs st1),
               netcdf := AList.update (output_file date) fout (netcdf st1)\<rparr>"
  using assms
  by (auto simp: gen_sflux_def Let_def split: prod.splits sum.splits)

lemma build_dataset_InrE:
  assumes "build_dataset w bb date fsys grbfiles = Inr fout'"
  obtains first rest ll s fout where
    "grbfiles = first # rest"
    "modified_latlon w bb fsys first = Inr ll"
    "extract_all w ll fsys grbfiles (\<lambda>v. []) = Inr s"
    "xr_Dataset
       [(''stmp'', s Stmp), (''spfh'', s Spfh), (''uwind'', s Uwind),
        (''vwind'', s Vwind), (''prmsl'', s Prmsl), (''prate'', s Prate),
        (''dlwrf'', s Dlwrf), (''dswrf'', s Dswrf)]
       (time_coord w (length grbfiles)) (lon_grid ll) (lat_grid ll) = Inr fout"
    "fout' = assign_attrs date fout"
proof (cases grbfiles)
  case Nil
  with assms show ?thesis by (simp add: build_dataset_def)
next
  case (Cons first rest)
  with assms have "and_then (modified_latlon w bb fsys first) (\<lambda>ll.
          and_then (extract_all w ll fsys grbfiles (\<lambda>v. [])) (\<lambda>s.
          and_then
            (xr_Dataset
               [(''stmp'', s Stmp), (''spfh'', s Spfh), (''uwind'', s Uwind),
                (''vwind'', s Vwind), (''prmsl'', s Prmsl), (''prate'', s Prate),
                (''dlwrf'', s Dlwrf), (''dswrf'', s Dswrf)]
               (time_coord w (length grbfiles)) (lon_grid ll) (lat_grid ll))
            (\<lambda>fout. Inr (assign_attrs date fout)))) = Inr fout'"
    by (simp add: build_dataset_def)
  then show ?thesis
    using Cons by (elim and_then_InrE) (auto intro: that)
qed

lemma xr_Dataset_InrE:
  assumes "xr_Dataset vars tv lon lat = Inr fout"
  obtains nx where
    "has_shape (length lon) nx lon" "has_shape (length lon) nx lat"
    "list_all (\<lambda>(name, a). has_shape3 (length tv) (length lon) nx a) vars"
    "variables fout =
       map (\<lambda>(name, a). (name, \<lparr>dims = [''time'', ''ny_grid'', ''nx_grid''],
                                 array = Array3 a, attrs = []\<rparr>)) vars"
    "coords fout =
       [(''time'', \<lparr>dims = [''time''], array = Array1 tv, attrs = []\<rparr>),
        (''lon'', \<lparr>dims = [''ny_grid'', ''nx_grid''], array = Array2 lon, attrs = []\<rparr>),
        (''lat'', \<lparr>dims = [''ny_grid'', ''nx_grid''], array = Array2 lat, attrs = []\<rparr>)]"
  using assms
  by (auto simp: xr_Dataset_def Let_def split: if_splits)

lemma map_of_set_attrs:
  "map_of (set_attrs n a vs) k =
     map_option (\<lambda>v. if k = n then v\<lparr>attrs := a\<rparr> else v) (map_of vs k)"
  by (induction vs) (auto simp: set_attrs_def)

lemma keys_set_attrs: "map fst (set_attrs n a vs) = map fst vs"
  by (induction vs) (auto simp: set_attrs_def)

lemma dims_set_attrs:
  "map_option dims (map_of (set_attrs n a vs) k) = map_option dims (map_of vs k)"
  by (cases "map_of vs k") (simp_all add: map_of_set_attrs)

lemma array_set_attrs:
  "map_option array (map_of (set_attrs n a vs) k) = map_option array (map_of vs k)"
  by (cases "map_of vs k") (simp_all add: map_of_set_attrs)

lemma assign_attrs_keeps:
  "map fst (variables (assign_attrs date fout)) = map fst (variables fout)"
  "map_option dims (map_of (variables (assign_attrs date fout)) k)
     = map_option dims (map_of (variables fout) k)"
  "map_option array (map_of (variables (assign_attrs date fout)) k)
     = map_option array (map_of (variables fout) k)"
  "map_option dims (map_of (coords (assign_attrs date fout)) k)
     = map_option dims (map_of (coords fout) k)"
  "map_option array (map_of (coords (assign_attrs date fout)) k)
     = map_option array (map_of (coords fout) k)"
  by (simp_all add: assign_attrs_def keys_set_attrs dims_set_attrs array_set_attrs)

lemma length_time_coord: "length (time_coord w n) = n"
  by (simp add: time_coord_def)

lemma nth_time_coord:
  assumes "1 \<le> h" "h \<le> n"
  shows "time_coord w n ! (h - 1) = astype_float32 w (np_round (real h / 24) 4)"
proof -
  have "h - 1 < length [1..<n + 1]" using assms by (simp del: upt_Suc)
  then have "time_coord w n ! (h - 1) =
      astype_float32 w (np_round (real ([1..<n + 1] ! (h - 1)) / 24) 4)"
    unfolding time_coord_def by (rule nth_map)
  moreover have "[1..<n + 1] ! (h - 1) = h" using assms by (simp del: upt_Suc)
  ultimately show ?thesis by simp
qed

lemma written_dataset:
  assumes "gen_sflux w bb date record scr st = (Inr (), st')"
  obtains inventory st1 first rest ll s fout where
    "AWSGrib2Inventory w date record scr ''atmos'' st = (Inr inventory, st1)"
    "files inventory st1 = first # rest"
    "modified_latlon w bb (fs st1) first = Inr ll"
    "extract_all w ll (fs st1) (first # rest) (\<lambda>v. []) = Inr s"
    "xr_Dataset
       [(''stmp'', s Stmp), (''spfh'', s Spfh), (''uwind'', s Uwind),
        (''vwind'', s Vwind), (''prmsl'', s Prmsl), (''prate'', s Prate),
        (''dlwrf'', s Dlwrf), (''dswrf'', s Dswrf)]
       (time_coord w (length (first # rest))) (lon_grid ll) (lat_grid ll) = Inr fout"
    "map_of (netcdf st') (output_file date) = Some (assign_attrs date fout)"
proof -
  from assms obtain inventory st1 fout' where
    inv: "AWSGrib2Inventory w date record scr ''atmos'' st = (Inr inventory, st1)"
    and build: "build_dataset w bb date (fs st1) (files inventory st1) = Inr fout'"
    and st': "st' = st1\<lparr>dirs := List.insert (strftime_Ymd date) (dirs st1),
               netcdf := AList.update (output_file date) fout' (netcdf st1)\<rparr>"
    by (rule gen_sflux_InrE)
  from build obtain first rest ll s fout where
    parts: "files inventory st1 = first # rest"
      "modified_latlon w bb (fs st1) first = Inr ll"
      "extract_all w ll (fs st1) (files inventory st1) (\<lambda>v. []) = Inr s"
      "xr_Dataset
         [(''stmp'', s Stmp), (''spfh'', s Spfh), (''uwind'', s Uwind),
          (''vwind'', s Vwind), (''prmsl'', s Prmsl), (''prate'', s Prate),
          (''dlwrf'', s Dlwrf), (''dswrf'', s Dswrf)]
         (time_coord w (length (files inventory st1))) (lon_grid ll) (lat_grid ll) = Inr fout"
      "fout' = assign_attrs date fout"
    by (rule build_dataset_InrE)
  have "map_of (netcdf st') (output_file date) = Some (assign_attrs date fout)"
    by (simp add: st' parts(5) update_conv)
  with inv parts show ?thesis
    by (intro that [of inventory st1 first rest ll s fout]) simp_all
qed


subsection \<open>Evaluating the runs of the examples\<close>

lemma init_ok:
  "AWSGrib2Inventory world_ok day0 1 None ''atmos'' state0 =
    (Inr inventory0,
     \<lparr>fs = fs_ok, dirs = [],
       download_log =
         [''Downloading file gfs.20230101/00/atmos/gfs.t00z.pgrb2.0p25.f001, '',
          ''Downloading file gfs.20230101/00/atmos/gfs.t00z.pgrb2.0p25.f002, ''],
       netcdf = []\<rparr>)"
  unfolding AWSGrib2Inventory_def world_ok_def listed0
  by (simp add: file_metadata_mixed Let_def selected_keys_def py_slice_def slice_bound_def
      world0_def local_path_def download_one_def state0_def inventory0_def key0_def fs_ok_def)

lemma files_ok: "fs st = fs_ok \<Longrightarrow> files inventory0 st = grbfiles_ok"
  by (simp add: files_def inventory0_def hourly_name0 glob_star_def suffix_to_prefix fs_ok_def
      grbfiles_ok_def)

lemma files_fs_fail:
  "fs st = fs_fail \<Longrightarrow> files inventory0 st =
     [''/tmp/tmpa1/gfs.20230101/00/atmos/gfs.t00z.pgrb2.0p25.f001.grib2'',
      ''/tmp/tmpa1/gfs.20230101/00/atmos/gfs.t00z.pgrb2.0p25.f002.grib2'',
      ''/tmp/tmpa1/gfs.20230101/00/atmos/gfs.t00z.pgrb2.0p25.f003.grib2'']"
  by (simp add: files_def inventory0_def hourly_name0 glob_star_def suffix_to_prefix fs_fail_def)

lemma contents_ok:
  "map_of fs_ok ''/tmp/tmpa1/gfs.20230101/00/atmos/gfs.t00z.pgrb2.0p25.f001.grib2''
     = Some ''gfs.20230101/00/atmos/gfs.t00z.pgrb2.0p25.f001''"
  "map_of fs_ok ''/tmp/tmpa1/gfs.20230101/00/atmos/gfs.t00z.pgrb2.0p25.f002.grib2''
     = Some ''gfs.20230101/00/atmos/gfs.t00z.pgrb2.0p25.f002''"
  by (simp_all add: fs_ok_def)

lemma contents_fail:
  "map_of fs_fail ''/tmp/tmpa1/gfs.20230101/00/atmos/gfs.t00z.pgrb2.0p25.f001.grib2''
     = Some ''gfs.20230101/00/atmos/gfs.t00z.pgrb2.0p25.f001''"
  "map_of fs_fail ''/tmp/tmpa1/gfs.20230101/00/atmos/gfs.t00z.pgrb2.0p25.f002.grib2'' = Some []"
  by (simp_all add: fs_fail_def)

lemma open_world0:
  "map_of fsys p = Some c \<Longrightarrow> c \<noteq> [] \<Longrightarrow>
     open_file (world0 names dl) fsys p flt = Inr (native0 c)"
  "map_of fsys p = Some [] \<Longrightarrow>
     open_file (world0 names dl) fsys p flt = Inl (DecodeError ''No valid message found'')"
  by (simp_all add: open_file_def world0_def decode0_def)

lemma latlon_world0:
  assumes "map_of fsys p = Some c" "c \<noteq> []"
  shows "modified_latlon (world0 names dl) bbox0 fsys p = Inr latlon0"
    and "modified_latlon (world0 names dl) bbox_greenwich fsys p = Inl IndexError"
  unfolding modified_latlon_def open_world0(1) [OF assms]
  by (simp_all add: and_then_def native0_def bbox0_def bbox_greenwich_def world0_def np_where_def
      meshgrid_def Let_def latlon0_def)

lemma field0_ok:
  "field0 ''gfs.20230101/00/atmos/gfs.t00z.pgrb2.0p25.f001'' =
     [[100, 101, 102, 103, 104, 105], [110, 111, 112, 113, 114, 115],
      [120, 121, 122, 123, 124, 125], [130, 131, 132, 133, 134, 135]]"
  "field0 ''gfs.20230101/00/atmos/gfs.t00z.pgrb2.0p25.f002'' =
     [[200, 201, 202, 203, 204, 205], [210, 211, 212, 213, 214, 215],
      [220, 221, 222, 223, 224, 225], [230, 231, 232, 233, 234, 235]]"
  by (simp_all add: field0_def)

lemma slices_ok:
  "window_slice (world0 names dl) latlon0 (field0 ''gfs.20230101/00/atmos/gfs.t00z.pgrb2.0p25.f001'')
     = [[123, 124], [113, 114]]"
  "window_slice (world0 names dl) latlon0 (field0 ''gfs.20230101/00/atmos/gfs.t00z.pgrb2.0p25.f002'')
     = [[223, 224], [213, 214]]"
  unfolding field0_ok
  by (simp_all add: window_slice_def latlon0_def py_slice_def slice_bound_def world0_def)

lemma native0_vars:
  "map_of (data_vars (native0 c)) ''sh2'' = Some (field0 c)"
  "map_of (data_vars (native0 c)) ''t2m'' = Some (field0 c)"
  "map_of (data_vars (native0 c)) ''u10'' = Some (field0 c)"
  "map_of (data_vars (native0 c)) ''v10'' = Some (field0 c)"
  "map_of (data_vars (native0 c)) ''prmsl'' = Some (field0 c)"
  "map_of (data_vars (native0 c)) ''prate'' = Some (field0 c)"
  "map_of (data_vars (native0 c)) ''dlwrf'' = Some (field0 c)"
  "map_of (data_vars (native0 c)) ''dswrf'' = Some (field0 c)"
  by (simp_all add: native0_def)

lemma extract_world0:
  assumes "map_of fsys p = Some c" "c \<noteq> []"
  shows "extract_file (world0 names dl) ll fsys p s =
   Inr (s(Spfh := s Spfh @ [window_slice (world0 names dl) ll (field0 c)],
          Stmp := s Stmp @ [window_slice (world0 names dl) ll (field0 c)],
          Uwind := s Uwind @ [window_slice (world0 names dl) ll (field0 c)],
          Vwind := s Vwind @ [window_slice (world0 names dl) ll (field0 c)],
          Prmsl := s Prmsl @ [window_slice (world0 names dl) ll (field0 c)],
          Prate := s Prate @ [window_slice (world0 names dl) ll (field0 c)],
          Dlwrf := s Dlwrf @ [window_slice (world0 names dl) ll (field0 c)],
          Dswrf := s Dswrf @ [window_slice (world0 names dl) ll (field0 c)]))"
  by (simp add: extract_file_def and_then_def open_world0(1) [OF assms] read_var_def native0_vars)

lemma extract_empty:
  assumes "map_of fsys p = Some []"
  shows "extract_file (world0 names dl) ll fsys p s = Inl (DecodeError ''No valid message found'')"
  by (simp add: extract_file_def and_then_def open_world0(2) [OF assms])

lemma time_ok: "time_coord (world0 names dl) (Suc (Suc 0)) = [417 / 10000, 833 / 10000]"
proof -
  have "\<lfloor>10000 / 24 :: real\<rfloor> = 416" "\<lfloor>20000 / 24 :: real\<rfloor> = 833"
    by linarith+
  then show ?thesis
    by (simp add: time_coord_def np_round_def np_rint_def world0_def Let_def)
qed

lemma series_ok:
  "\<exists>s. extract_all world_ok latlon0 fs_ok grbfiles_ok (\<lambda>v. []) = Inr s
       \<and> (\<forall>v. s v = [[[123, 124], [113, 114]], [[223, 224], [213, 214]]])"
proof (intro exI conjI allI)
  show "extract_all world_ok latlon0 fs_ok grbfiles_ok (\<lambda>v. []) =
      Inr (((\<lambda>v. [])(Spfh := [[[123, 124], [113, 114]]],
          Stmp := [[[123, 124], [113, 114]]],
          Uwind := [[[123, 124], [113, 114]]],
          Vwind := [[[123, 124], [113, 114]]],
          Prmsl := [[[123, 124], [113, 114]]],
          Prate := [[[123, 124], [113, 114]]],
          Dlwrf := [[[123, 124], [113, 114]]],
          Dswrf := [[[123, 124], [113, 114]]]))
         (Spfh := [[[123, 124], [113, 114]], [[223, 224], [213, 214]]],
          Stmp := [[[123, 124], [113, 114]], [[223, 224], [213, 214]]],
          Uwind := [[[123, 124], [113, 114]], [[223, 224], [213, 214]]],
          Vwind := [[[123, 124], [113, 114]], [[223, 224], [213, 214]]],
          Prmsl := [[[123, 124], [113, 114]], [[223, 224], [213, 214]]],
          Prate := [[[123, 124], [113, 114]], [[223, 224], [213, 214]]],
          Dlwrf := [[[123, 124], [113, 114]], [[223, 224], [213, 214]]],
          Dswrf := [[[123, 124], [113, 114]], [[223, 224], [213, 214]]]))"
    unfolding world_ok_def grbfiles_ok_def
    by (simp add: extract_world0 [OF contents_ok(1)] extract_world0 [OF contents_ok(2)] slices_ok)
  fix v :: var
  show "(((\<lambda>v. [])(Spfh := [[[123, 124], [113, 114]]],
          Stmp := [[[123, 124], [113, 114]]],
          Uwind := [[[123, 124], [113, 114]]],
          Vwind := [[[123, 124], [113, 114]]],
          Prmsl := [[[123, 124], [113, 114]]],
          Prate := [[[123, 124], [113, 114]]],
          Dlwrf := [[[123, 124], [113, 114]]],
          Dswrf := [[[123, 124], [113, 114]]]))
         (Spfh := [[[123, 124], [113, 114]], [[223, 224], [213, 214]]],
          Stmp := [[[123, 124], [113, 114]], [[223, 224], [213, 214]]],
          Uwind := [[[123, 124], [113, 114]], [[223, 224], [213, 214]]],
          Vwind := [[[123, 124], [113, 114]], [[223, 224], [213, 214]]],
          Prmsl := [[[123, 124], [113, 114]], [[223, 224], [213, 214]]],
          Prate := [[[123, 124], [113, 114]], [[223, 224], [213, 214]]],
          Dlwrf := [[[123, 124], [113, 114]], [[223, 224], [213, 214]]],
          Dswrf := [[[123, 124], [113, 114]], [[223, 224], [213, 214]]])) v
      = [[[123, 124], [113, 114]], [[223, 224], [213, 214]]]"
    by (cases v) simp_all
qed

lemma build_ok: "build_dataset world_ok bbox0 day0 fs_ok grbfiles_ok = Inr dataset_ok"
proof -
  from series_ok obtain s where
    s: "extract_all world_ok latlon0 fs_ok grbfiles_ok (\<lambda>v. []) = Inr s"
    and sv: "\<And>v. s v = [[[123, 124], [113, 114]], [[223, 224], [213, 214]]]"
    by blast
  have shapes: "has_shape 2 2 (lon_grid latlon0)" "has_shape 2 2 (lat_grid latlon0)"
    "length (lon_grid latlon0) = 2"
    "(case lon_grid latlon0 of [] \<Rightarrow> 0 | row # _ \<Rightarrow> length row) = 2"
    "has_shape3 (Suc (Suc 0)) 2 2 [[[123, 124], [113, 114]], [[223, 224], [213, 214 :: real]]]"
    by (simp_all add: latlon0_def has_shape_def has_shape3_def)
  have len: "length grbfiles_ok = Suc (Suc 0)" by (simp add: grbfiles_ok_def)
  have first: "grbfiles_ok = ''/tmp/tmpa1/gfs.20230101/00/atmos/gfs.t00z.pgrb2.0p25.f001.grib2''
      # tl grbfiles_ok"
    by (simp add: grbfiles_ok_def)
  have ll: "modified_latlon world_ok bbox0 fs_ok
      ''/tmp/tmpa1/gfs.20230101/00/atmos/gfs.t00z.pgrb2.0p25.f001.grib2'' = Inr latlon0"
    unfolding world_ok_def by (rule latlon_world0(1) [OF contents_ok(1)]) simp
  have "build_dataset world_ok bbox0 day0 fs_ok grbfiles_ok =
      and_then
        (xr_Dataset
           [(''stmp'', s Stmp), (''spfh'', s Spfh), (''uwind'', s Uwind),
            (''vwind'', s Vwind), (''prmsl'', s Prmsl), (''prate'', s Prate),
            (''dlwrf'', s Dlwrf), (''dswrf'', s Dswrf)]
           (time_coord world_ok (length grbfiles_ok)) (lon_grid latlon0) (lat_grid latlon0))
        (\<lambda>fout. Inr (assign_attrs day0 fout))"
    unfolding build_dataset_def by (subst first) (simp add: ll s and_then_def)
  also have "\<dots> = Inr dataset_ok"
    unfolding sv len world_ok_def time_ok
    by (simp add: xr_Dataset_def shapes Let_def and_then_def dataset_ok_def)
  finally show ?thesis .
qed

lemma names_day0:
  "strftime_Ymd day0 = ''20230101''"
  "output_file day0 = ''20230101/gfs_2023010100.nc''"
  by (simp_all add: output_file_def eval_date numeral_2_eq_2)

lemma gen_sflux_ok:
  "gen_sflux world_ok bbox0 day0 1 None state0 =
    (Inr (),
     \<lparr>fs = fs_ok, dirs = [''20230101''],
       download_log =
         [''Downloading file gfs.20230101/00/atmos/gfs.t00z.pgrb2.0p25.f001, '',
          ''Downloading file gfs.20230101/00/atmos/gfs.t00z.pgrb2.0p25.f002, ''],
       netcdf = [(''20230101/gfs_2023010100.nc'', dataset_ok)]\<rparr>)"
  unfolding gen_sflux_def init_ok
  by (simp add: files_ok build_ok Let_def names_day0)

lemma gen_sflux_greenwich:
  "gen_sflux world_ok bbox_greenwich day0 1 None state0 =
    (Inl IndexError,
     \<lparr>fs = fs_ok, dirs = [''20230101''],
       download_log =
         [''Downloading file gfs.20230101/00/atmos/gfs.t00z.pgrb2.0p25.f001, '',
          ''Downloading file gfs.20230101/00/atmos/gfs.t00z.pgrb2.0p25.f002, ''],
       netcdf = []\<rparr>)"
proof -
  have ll: "modified_latlon world_ok bbox_greenwich fs_ok
      ''/tmp/tmpa1/gfs.20230101/00/atmos/gfs.t00z.pgrb2.0p25.f001.grib2'' = Inl IndexError"
    unfolding world_ok_def by (rule latlon_world0(2) [OF contents_ok(1)]) simp
  have "build_dataset world_ok bbox_greenwich day0 fs_ok grbfiles_ok = Inl IndexError"
    by (simp add: build_dataset_def grbfiles_ok_def ll and_then_def)
  then show ?thesis
    unfolding gen_sflux_def init_ok by (simp add: files_ok Let_def names_day0)
qed

lemma init_fs_fail:
  "AWSGrib2Inventory world_fail day0 1 None ''atmos'' state0 =
    (Inr inventory0,
     \<lparr>fs = fs_fail, dirs = [],
       download_log =
         [''Downloading file gfs.20230101/00/atmos/gfs.t00z.pgrb2.0p25.f001, '',
          ''Downloading file gfs.20230101/00/atmos/gfs.t00z.pgrb2.0p25.f002, '',
          ''file gfs.20230101/00/atmos/gfs.t00z.pgrb2.0p25.f002 is not available'',
          ''Downloading file gfs.20230101/00/atmos/gfs.t00z.pgrb2.0p25.f003, ''],
       netcdf = []\<rparr>)"
  by (simp add: init_fail fs_fail_def)

lemma gen_sflux_fail:
  "gen_sflux world_fail bbox0 day0 1 None state0 =
    (Inl (DecodeError ''No valid message found''),
     \<lparr>fs = fs_fail, dirs = [''20230101''],
       download_log =
         [''Downloading file gfs.20230101/00/atmos/gfs.t00z.pgrb2.0p25.f001, '',
          ''Downloading file gfs.20230101/00/atmos/gfs.t00z.pgrb2.0p25.f002, '',
          ''file gfs.20230101/00/atmos/gfs.t00z.pgrb2.0p25.f002 is not available'',
          ''Downloading file gfs.20230101/00/atmos/gfs.t00z.pgrb2.0p25.f003, ''],
       netcdf = []\<rparr>)"
proof -
  have ll: "modified_latlon world_fail bbox0 fs_fail
      ''/tmp/tmpa1/gfs.20230101/00/atmos/gfs.t00z.pgrb2.0p25.f001.grib2'' = Inr latlon0"
    unfolding world_fail_def by (rule latlon_world0(1) [OF contents_fail(1)]) simp
  have "build_dataset world_fail bbox0 day0 fs_fail
      [''/tmp/tmpa1/gfs.20230101/00/atmos/gfs.t00z.pgrb2.0p25.f001.grib2'',
       ''/tmp/tmpa1/gfs.20230101/00/atmos/gfs.t00z.pgrb2.0p25.f002.grib2'',
       ''/tmp/tmpa1/gfs.20230101/00/atmos/gfs.t00z.pgrb2.0p25.f003.grib2'']
     = Inl (DecodeError ''No valid message found'')"
    unfolding build_dataset_def
    apply (simp add: ll and_then_def)
    unfolding world_fail_def
    by (simp add: extract_world0 [OF contents_fail(1)] extract_empty [OF contents_fail(2)])
  then show ?thesis
    unfolding gen_sflux_def init_fs_fail by (simp add: files_fs_fail Let_def names_day0)
qed

lemma dataset_ok_arrays:
  "map_option array (map_of (variables dataset_ok) ''stmp'')
     = Some (Array3 [[[123, 124], [113, 114]], [[223, 224], [213, 214]]])"
  "map_option array (map_of (variables dataset_ok) ''dswrf'')
     = Some (Array3 [[[123, 124], [113, 114]], [[223, 224], [213, 214]]])"
  "map_option array (map_of (coords dataset_ok) ''time'')
     = Some (Array1 [417 / 10000, 833 / 10000])"
  "map_option array (map_of (coords dataset_ok) ''lat'') = Some (Array2 [[0, 0], [30, 30]])"
  by (simp_all add: dataset_ok_def assign_attrs_keeps latlon0_def)


subsection \<open>The dataset\<close>

text \<open>
  C1. When \<^verbatim>\<open>gen_sflux\<close> returns, the inventory listed \<open>H \<ge> 1\<close> files, the window was
  computed from the first of them, and the dataset written for the day has exactly the
  eight variables. Each has the dimensions time, ny_grid, nx_grid; its array is the list of
  the window slices of the fields the decoder returned for that variable, one for each file
  in the order of the file list (the forecast-hour order), and has the shape
  \<open>(H, Ny, Nx)\<close>, where \<open>(Ny, Nx)\<close> is the shape of both coordinate grids of the window. The
  time coordinate has length \<open>H\<close>, and at position \<open>h - 1\<close>, for \<open>h = 1..H\<close>, it holds
  \<open>h / 24\<close> rounded to four decimals and then cast to float32.
\<close>

theorem gen_sflux_shapes:
  assumes "gen_sflux w bb date record scr st = (Inr (), st')"
  shows "\<exists>inventory st1 first rest ll fout Ny Nx.
      AWSGrib2Inventory w date record scr ''atmos'' st = (Inr inventory, st1)
    \<and> files inventory st1 = first # rest
    \<and> modified_latlon w bb (fs st1) first = Inr ll
    \<and> map_of (netcdf st') (output_file date) = Some fout
    \<and> has_shape Ny Nx (lon_grid ll) \<and> has_shape Ny Nx (lat_grid ll)
    \<and> map fst (variables fout) =
        [''stmp'', ''spfh'', ''uwind'', ''vwind'', ''prmsl'', ''prate'', ''dlwrf'', ''dswrf'']
    \<and> (\<forall>v. map_option dims (map_of (variables fout) (var_name v))
              = Some [''time'', ''ny_grid'', ''nx_grid'']
          \<and> (\<exists>as. list_all2 (\<lambda>grb a. decoded w (fs st1) grb v = Inr a) (first # rest) as
                \<and> map_option array (map_of (variables fout) (var_name v))
                    = Some (Array3 (map (window_slice w ll) as))
                \<and> has_shape3 (length (first # rest)) Ny Nx (map (window_slice w ll) as)))
    \<and> map_option dims (map_of (coords fout) ''time'') = Some [''time'']
    \<and> map_option array (map_of (coords fout) ''time'')
        = Some (Array1 (time_coord w (length (first # rest))))
    \<and> length (time_coord w (length (first # rest))) = length (first # rest)
    \<and> (\<forall>h. 1 \<le> h \<and> h \<le> length (first # rest) \<longrightarrow>
          time_coord w (length (first # rest)) ! (h - 1)
            = astype_float32 w (np_round (real h / 24) 4))"
proof -
  from assms obtain inventory st1 first rest ll s fout0 where
    inv: "AWSGrib2Inventory w date record scr ''atmos'' st = (Inr inventory, st1)"
    and fl: "files inventory st1 = first # rest"
    and ll: "modified_latlon w bb (fs st1) first = Inr ll"
    and ex: "extract_all w ll (fs st1) (first # rest) (\<lambda>v. []) = Inr s"
    and ds: "xr_Dataset
       [(''stmp'', s Stmp), (''spfh'', s Spfh), (''uwind'', s Uwind),
        (''vwind'', s Vwind), (''prmsl'', s Prmsl), (''prate'', s Prate),
        (''dlwrf'', s Dlwrf), (''dswrf'', s Dswrf)]
       (time_coord w (length (first # rest))) (lon_grid ll) (lat_grid ll) = Inr fout0"
    and out: "map_of (netcdf st') (output_file date) = Some (assign_attrs date fout0)"
    by (rule written_dataset)
  let ?H = "length (first # rest)"
  let ?Ny = "length (lon_grid ll)"
  from ds obtain Nx where
    lon: "has_shape ?Ny Nx (lon_grid ll)" and lat: "has_shape ?Ny Nx (lat_grid ll)"
    and shapes: "list_all (\<lambda>(name, a). has_shape3 (length (time_coord w ?H)) ?Ny Nx a)
       [(''stmp'', s Stmp), (''spfh'', s Spfh), (''uwind'', s Uwind),
        (''vwind'', s Vwind), (''prmsl'', s Prmsl), (''prate'', s Prate),
        (''dlwrf'', s Dlwrf), (''dswrf'', s Dswrf)]"
    and vars: "variables fout0 =
       map (\<lambda>(name, a). (name, \<lparr>dims = [''time'', ''ny_grid'', ''nx_grid''],
                                 array = Array3 a, attrs = []\<rparr>))
       [(''stmp'', s Stmp), (''spfh'', s Spfh), (''uwind'', s Uwind),
        (''vwind'', s Vwind), (''prmsl'', s Prmsl), (''prate'', s Prate),
        (''dlwrf'', s Dlwrf), (''dswrf'', s Dswrf)]"
    and crd: "coords fout0 =
       [(''time'', \<lparr>dims = [''time''], array = Array1 (time_coord w ?H), attrs = []\<rparr>),
        (''lon'', \<lparr>dims = [''ny_grid'', ''nx_grid''], array = Array2 (lon_grid ll), attrs = []\<rparr>),
        (''lat'', \<lparr>dims = [''ny_grid'', ''nx_grid''], array = Array2 (lat_grid ll), attrs = []\<rparr>)]"
    by (rule xr_Dataset_InrE)
  let ?fout = "assign_attrs date fout0"
  have keys: "map fst (variables ?fout) =
      [''stmp'', ''spfh'', ''uwind'', ''vwind'', ''prmsl'', ''prate'', ''dlwrf'', ''dswrf'']"
    by (simp add: assign_attrs_keeps vars)
  have var0: "\<And>v. map_of (variables fout0) (var_name v) =
      Some \<lparr>dims = [''time'', ''ny_grid'', ''nx_grid''], array = Array3 (s v), attrs = []\<rparr>"
  proof -
    fix v show "map_of (variables fout0) (var_name v) =
      Some \<lparr>dims = [''time'', ''ny_grid'', ''nx_grid''], array = Array3 (s v), attrs = []\<rparr>"
      unfolding vars by (cases v) simp_all
  qed
  have shape: "\<And>v. has_shape3 ?H ?Ny Nx (s v)"
  proof -
    fix v show "has_shape3 ?H ?Ny Nx (s v)"
      using shapes unfolding length_time_coord by (cases v) simp_all
  qed
  have each: "\<forall>v. map_option dims (map_of (variables ?fout) (var_name v))
              = Some [''time'', ''ny_grid'', ''nx_grid'']
          \<and> (\<exists>as. list_all2 (\<lambda>grb a. decoded w (fs st1) grb v = Inr a) (first # rest) as
                \<and> map_option array (map_of (variables ?fout) (var_name v))
                    = Some (Array3 (map (window_slice w ll) as))
                \<and> has_shape3 ?H ?Ny Nx (map (window_slice w ll) as))"
  proof
    fix v
    from extract_all_Inr [OF ex, of v] obtain as where
      as: "list_all2 (\<lambda>grb a. decoded w (fs st1) grb v = Inr a) (first # rest) as"
      and sv: "s v = map (window_slice w ll) as"
      by auto
    have d: "map_option dims (map_of (variables ?fout) (var_name v))
        = Some [''time'', ''ny_grid'', ''nx_grid'']"
      by (simp add: assign_attrs_keeps var0)
    have a: "map_option array (map_of (variables ?fout) (var_name v)) = Some (Array3 (map (window_slice w ll) as))"
      by (simp add: assign_attrs_keeps var0 sv)
    have h: "has_shape3 ?H ?Ny Nx (map (window_slice w ll) as)"
      using shape [of v] by (simp only: sv)
    show "map_option dims (map_of (variables ?fout) (var_name v))
              = Some [''time'', ''ny_grid'', ''nx_grid'']
          \<and> (\<exists>as. list_all2 (\<lambda>grb a. decoded w (fs st1) grb v = Inr a) (first # rest) as
                \<and> map_option array (map_of (variables ?fout) (var_name v))
                    = Some (Array3 (map (window_slice w ll) as))
                \<and> has_shape3 ?H ?Ny Nx (map (window_slice w ll) as))"
      using d as a h by blast
  qed
  have td: "map_option dims (map_of (coords ?fout) ''time'') = Some [''time'']"
    by (simp add: assign_attrs_keeps crd)
  have ta: "map_option array (map_of (coords ?fout) ''time'') = Some (Array1 (time_coord w ?H))"
    by (simp add: assign_attrs_keeps crd)
  have tl: "length (time_coord w ?H) = ?H" by (rule length_time_coord)
  have tv: "\<forall>h. 1 \<le> h \<and> h \<le> ?H \<longrightarrow>
      time_coord w ?H ! (h - 1) = astype_float32 w (np_round (real h / 24) 4)"
    using nth_time_coord by blast
  show ?thesis
    by (intro exI conjI)
      (rule inv, rule fl, rule ll, rule out, rule lon, rule lat, rule keys, rule each,
       rule td, rule ta, rule tl, rule tv)
qed

text \<open>
  The run of the example: two files, a window of two rows and two columns, the slices of
  hour 1 and hour 2 in this order, and the times 0.0417 and 0.0833.
\<close>

theorem gen_sflux_shapes_witness:
  "fst (gen_sflux world_ok bbox0 day0 1 None state0) = Inr ()
   \<and> map_of (netcdf (snd (gen_sflux world_ok bbox0 day0 1 None state0)))
        ''20230101/gfs_2023010100.nc'' = Some dataset_ok
   \<and> map_option dims (map_of (variables dataset_ok) ''stmp'')
        = Some [''time'', ''ny_grid'', ''nx_grid'']
   \<and> map_option array (map_of (variables dataset_ok) ''stmp'')
        = Some (Array3 [[[123, 124], [113, 114]], [[223, 224], [213, 214]]])
   \<and> has_shape3 2 2 2 [[[123, 124], [113, 114]], [[223, 224], [213, 214 :: real]]]
   \<and> map_option array (map_of (coords dataset_ok) ''time'')
        = Some (Array1 [417 / 10000, 833 / 10000])
   \<and> time_coord world_ok 2 ! (2 - 1) = astype_float32 world_ok (np_round (real 2 / 24) 4)"
proof -
  let ?st' = "snd (gen_sflux world_ok bbox0 day0 1 None state0)"
  have run: "gen_sflux world_ok bbox0 day0 1 None state0 = (Inr (), ?st')"
    by (simp add: gen_sflux_ok)
  from gen_sflux_shapes [OF run] obtain inventory st1 first rest ll fout Ny Nx where
    inv: "AWSGrib2Inventory world_ok day0 1 None ''atmos'' state0 = (Inr inventory, st1)"
    and fl: "files inventory st1 = first # rest"
    and out: "map_of (netcdf ?st') (output_file day0) = Some fout"
    and each: "\<forall>v. map_option dims (map_of (variables fout) (var_name v))
              = Some [''time'', ''ny_grid'', ''nx_grid'']
          \<and> (\<exists>as. list_all2 (\<lambda>grb a. decoded world_ok (fs st1) grb v = Inr a) (first # rest) as
                \<and> map_option array (map_of (variables fout) (var_name v))
                    = Some (Array3 (map (window_slice world_ok ll) as))
                \<and> has_shape3 (length (first # rest)) Ny Nx (map (window_slice world_ok ll) as))"
    and tv: "\<forall>h. 1 \<le> h \<and> h \<le> length (first # rest) \<longrightarrow>
          time_coord world_ok (length (first # rest)) ! (h - 1)
            = astype_float32 world_ok (np_round (real h / 24) 4)"
    by blast
  from inv have "inventory = inventory0" "fs st1 = fs_ok" by (auto simp: init_ok)
  with fl have files: "first # rest = grbfiles_ok" by (simp add: files_ok)
  then have len: "length (first # rest) = 2" by (simp add: grbfiles_ok_def)
  have stored: "map_of (netcdf ?st') ''20230101/gfs_2023010100.nc'' = Some dataset_ok"
    by (simp add: gen_sflux_ok)
  with out have fout: "fout = dataset_ok" by (simp add: names_day0)
  from each have d: "map_option dims (map_of (variables fout) (var_name Stmp))
      = Some [''time'', ''ny_grid'', ''nx_grid'']"
    by blast
  from tv len have t: "time_coord world_ok 2 ! (2 - 1) = astype_float32 world_ok (np_round (real 2 / 24) 4)"
    by (metis one_le_numeral order_refl)
  have shape: "has_shape3 2 2 2 [[[123, 124], [113, 114]], [[223, 224], [213, 214 :: real]]]"
    by (simp add: has_shape3_def has_shape_def)
  show ?thesis
    using d t shape stored unfolding fout by (simp add: gen_sflux_ok dataset_ok_arrays)
qed


text \<open>
  C6. The dataset a run writes carries, for each of the eight variables, exactly the
  attributes of lines 216-259: units and long name for all, a standard name for the two
  winds, the humidity and the pressure only, and the long names of \<^verbatim>\<open>dlwrf\<close> and
  \<^verbatim>\<open>dswrf\<close> as the source has them, short-wave for the former and long-wave for the
  latter.
\<close>

theorem gen_sflux_attributes:
  assumes "gen_sflux w bb date record scr st = (Inr (), st')"
  shows "\<exists>fout. map_of (netcdf st') (output_file date) = Some fout
    \<and> map_option attrs (map_of (variables fout) ''uwind'') =
        Some [(''units'', Str ''m/s''), (''long_name'', Str ''10m_above_ground/UGRD''),
              (''standard_name'', Str ''eastward_wind'')]
    \<and> map_option attrs (map_of (variables fout) ''vwind'') =
        Some [(''units'', Str ''m/s''), (''long_name'', Str ''10m_above_ground/VGRD''),
              (''standard_name'', Str ''northward_wind'')]
    \<and> map_option attrs (map_of (variables fout) ''spfh'') =
        Some [(''units'', Str ''kg kg-1''),
              (''long_name'', Str ''2m_above_ground/Specific Humidity''),
              (''standard_name'', Str ''specific_humidity'')]
    \<and> map_option attrs (map_of (variables fout) ''prmsl'') =
        Some [(''units'', Str ''Pa''), (''long_name'', Str ''Pressure reduced to MSL''),
              (''standard_name'', Str ''air_pressure_at_sea_level'')]
    \<and> map_option attrs (map_of (variables fout) ''stmp'') =
        Some [(''units'', Str ''K''), (''long_name'', Str ''2m_above_ground/Temperature'')]
    \<and> map_option attrs (map_of (variables fout) ''prate'') =
        Some [(''units'', Str ''kg m-2 s-1''), (''long_name'', Str ''Precipitation rate'')]
    \<and> map_option attrs (map_of (variables fout) ''dlwrf'') =
        Some [(''units'', Str ''W m-2''),
              (''long_name'', Str ''Downward short-wave radiation flux'')]
    \<and> map_option attrs (map_of (variables fout) ''dswrf'') =
        Some [(''units'', Str ''W m-2''),
              (''long_name'', Str ''Downward long-wave radiation flux'')]"
proof -
  from assms obtain inventory st1 first rest ll s fout0 where
    inv: "AWSGrib2Inventory w date record scr ''atmos'' st = (Inr inventory, st1)"
    and fl: "files inventory st1 = first # rest"
    and ll: "modified_latlon w bb (fs st1) first = Inr ll"
    and ex: "extract_all w ll (fs st1) (first # rest) (\<lambda>v. []) = Inr s"
    and ds: "xr_Dataset
       [(''stmp'', s Stmp), (''spfh'', s Spfh), (''uwind'', s Uwind),
        (''vwind'', s Vwind), (''prmsl'', s Prmsl), (''prate'', s Prate),
        (''dlwrf'', s Dlwrf), (''dswrf'', s Dswrf)]
       (time_coord w (length (first # rest))) (lon_grid ll) (lat_grid ll) = Inr fout0"
    and out: "map_of (netcdf st') (output_file date) = Some (assign_attrs date fout0)"
    by (rule written_dataset)
  from ds have vars: "variables fout0 =
       map (\<lambda>(name, a). (name, \<lparr>dims = [''time'', ''ny_grid'', ''nx_grid''],
                                 array = Array3 a, attrs = []\<rparr>))
       [(''stmp'', s Stmp), (''spfh'', s Spfh), (''uwind'', s Uwind),
        (''vwind'', s Vwind), (''prmsl'', s Prmsl), (''prate'', s Prate),
        (''dlwrf'', s Dlwrf), (''dswrf'', s Dswrf)]"
    by (rule xr_Dataset_InrE)
  have v: "variables (assign_attrs date fout0) =
     [(''stmp'', \<lparr>dims = [''time'', ''ny_grid'', ''nx_grid''], array = Array3 (s Stmp),
         attrs = [(''units'', Str ''K''), (''long_name'', Str ''2m_above_ground/Temperature'')]\<rparr>),
      (''spfh'', \<lparr>dims = [''time'', ''ny_grid'', ''nx_grid''], array = Array3 (s Spfh),
         attrs = [(''units'', Str ''kg kg-1''),
              (''long_name'', Str ''2m_above_ground/Specific Humidity''),
              (''standard_name'', Str ''specific_humidity'')]\<rparr>),
      (''uwind'', \<lparr>dims = [''time'', ''ny_grid'', ''nx_grid''], array = Array3 (s Uwind),
         attrs = [(''units'', Str ''m/s''), (''long_name'', Str ''10m_above_ground/UGRD''),
              (''standard_name'', Str ''eastward_wind'')]\<rparr>),
      (''vwind'', \<lparr>dims = [''time'', ''ny_grid'', ''nx_grid''], array = Array3 (s Vwind),
         attrs = [(''units'', Str ''m/s''), (''long_name'', Str ''10m_above_ground/VGRD''),
              (''standard_name'', Str ''northward_wind'')]\<rparr>),
      (''prmsl'', \<lparr>dims = [''time'', ''ny_grid'', ''nx_grid''], array = Array3 (s Prmsl),
         attrs = [(''units'', Str ''Pa''), (''long_name'', Str ''Pressure reduced to MSL''),
              (''standard_name'', Str ''air_pressure_at_sea_level'')]\<rparr>),
      (''prate'', \<lparr>dims = [''time'', ''ny_grid'', ''nx_grid''], array = Array3 (s Prate),
         attrs = [(''units'', Str ''kg m-2 s-1''), (''long_name'', Str ''Precipitation rate'')]\<rparr>),
      (''dlwrf'', \<lparr>dims = [''time'', ''ny_grid'', ''nx_grid''], array = Array3 (s Dlwrf),
         attrs = [(''units'', Str ''W m-2''),
              (''long_name'', Str ''Downward short-wave radiation flux'')]\<rparr>),
      (''dswrf'', \<lparr>dims = [''time'', ''ny_grid'', ''nx_grid''], array = Array3 (s Dswrf),
         attrs = [(''units'', Str ''W m-2''),
              (''long_name'', Str ''Downward long-wave radiation flux'')]\<rparr>)]"
    by (simp add: assign_attrs_def vars set_attrs_def)
  show ?thesis
    by (rule exI [of _ "assign_attrs date fout0"]) (simp add: out v)
qed


text \<open>The dataset of the example run has these attributes.\<close>

theorem gen_sflux_attributes_witness:
  "fst (gen_sflux world_ok bbox0 day0 1 None state0) = Inr ()
   \<and> map_of (netcdf (snd (gen_sflux world_ok bbox0 day0 1 None state0)))
        ''20230101/gfs_2023010100.nc'' = Some dataset_ok
   \<and> map_option attrs (map_of (variables dataset_ok) ''dlwrf'') =
        Some [(''units'', Str ''W m-2''),
              (''long_name'', Str ''Downward short-wave radiation flux'')]
   \<and> map_option attrs (map_of (variables dataset_ok) ''uwind'') =
        Some [(''units'', Str ''m/s''), (''long_name'', Str ''10m_above_ground/UGRD''),
              (''standard_name'', Str ''eastward_wind'')]"
proof -
  let ?st' = "snd (gen_sflux world_ok bbox0 day0 1 None state0)"
  have run: "gen_sflux world_ok bbox0 day0 1 None state0 = (Inr (), ?st')"
    by (simp add: gen_sflux_ok)
  have stored: "map_of (netcdf ?st') ''20230101/gfs_2023010100.nc'' = Some dataset_ok"
    by (simp add: gen_sflux_ok)
  from gen_sflux_attributes [OF run] obtain fout where
    out: "map_of (netcdf ?st') (output_file day0) = Some fout"
    and a: "map_option attrs (map_of (variables fout) ''dlwrf'') =
        Some [(''units'', Str ''W m-2''),
              (''long_name'', Str ''Downward short-wave radiation flux'')]"
    and b: "map_option attrs (map_of (variables fout) ''uwind'') =
        Some [(''units'', Str ''m/s''), (''long_name'', Str ''10m_above_ground/UGRD''),
              (''standard_name'', Str ''eastward_wind'')]"
    by blast
  from out stored have "fout = dataset_ok" by (simp add: names_day0)
  with a b stored show ?thesis by (simp add: gen_sflux_ok)
qed

text \<open>
  C8. Whenever \<^verbatim>\<open>gen_sflux\<close> ends with an exception, whether from the listing, the
  window, the decoder or the assembly of the dataset, the NetCDF files are those that
  existed before the call. When it returns, the whole dataset had been built before the
  single write, and that write is the only change to the NetCDF files. (The output
  directory is created before anything is read, and the scratch files stay.)
\<close>

theorem gen_sflux_writes_last:
  "(\<forall>e. fst (gen_sflux w bb date record scr st) = Inl e
        \<longrightarrow> netcdf (snd (gen_sflux w bb date record scr st)) = netcdf st)
   \<and> (fst (gen_sflux w bb date record scr st) = Inr ()
        \<longrightarrow> (\<exists>inventory st1 fout.
               AWSGrib2Inventory w date record scr ''atmos'' st = (Inr inventory, st1)
             \<and> build_dataset w bb date (fs st1) (files inventory st1) = Inr fout
             \<and> netcdf (snd (gen_sflux w bb date record scr st))
                 = AList.update (output_file date) fout (netcdf st)))"
proof (intro conjI allI impI)
  fix e assume e: "fst (gen_sflux w bb date record scr st) = Inl e"
  obtain r st1 where inv: "AWSGrib2Inventory w date record scr ''atmos'' st = (r, st1)"
    by (cases "AWSGrib2Inventory w date record scr ''atmos'' st")
  then have same: "netcdf st1 = netcdf st" by (simp add: state_after_inventory)
  show "netcdf (snd (gen_sflux w bb date record scr st)) = netcdf st"
  proof (cases r)
    case (Inl e1)
    then show ?thesis using inv same by (simp add: gen_sflux_def)
  next
    case (Inr inventory)
    show ?thesis
    proof (cases "build_dataset w bb date (fs st1) (files inventory st1)")
      case (Inl e2)
      then show ?thesis using inv Inr same by (simp add: gen_sflux_def Let_def)
    next
      case (Inr fout)
      then have "fst (gen_sflux w bb date record scr st) = Inr ()"
        using inv \<open>r = Inr inventory\<close> by (simp add: gen_sflux_def Let_def)
      with e show ?thesis by simp
    qed
  qed
next
  assume "fst (gen_sflux w bb date record scr st) = Inr ()"
  then have "gen_sflux w bb date record scr st = (Inr (), snd (gen_sflux w bb date record scr st))"
    by (metis prod.collapse)
  then obtain inventory st1 fout where
    inv: "AWSGrib2Inventory w date record scr ''atmos'' st = (Inr inventory, st1)"
    and build: "build_dataset w bb date (fs st1) (files inventory st1) = Inr fout"
    and st': "snd (gen_sflux w bb date record scr st) =
        st1\<lparr>dirs := List.insert (strftime_Ymd date) (dirs st1),
            netcdf := AList.update (output_file date) fout (netcdf st1)\<rparr>"
    by (rule gen_sflux_InrE)
  from inv have "netcdf st1 = netcdf st" by (simp add: state_after_inventory)
  then have "netcdf (snd (gen_sflux w bb date record scr st))
      = AList.update (output_file date) fout (netcdf st)"
    by (simp add: st')
  with inv build show "\<exists>inventory st1 fout.
               AWSGrib2Inventory w date record scr ''atmos'' st = (Inr inventory, st1)
             \<and> build_dataset w bb date (fs st1) (files inventory st1) = Inr fout
             \<and> netcdf (snd (gen_sflux w bb date record scr st))
                 = AList.update (output_file date) fout (netcdf st)"
    by blast
qed

text \<open>
  A box without a window raises IndexError and the run with the empty file raises the
  decoder's error; neither writes anything. The run of the example writes its one file.
\<close>

theorem gen_sflux_writes_last_witness:
  "fst (gen_sflux world_ok bbox_greenwich day0 1 None state0) = Inl IndexError
   \<and> netcdf (snd (gen_sflux world_ok bbox_greenwich day0 1 None state0)) = netcdf state0
   \<and> fst (gen_sflux world_fail bbox0 day0 1 None state0)
       = Inl (DecodeError ''No valid message found'')
   \<and> netcdf (snd (gen_sflux world_fail bbox0 day0 1 None state0)) = netcdf state0
   \<and> fst (gen_sflux world_ok bbox0 day0 1 None state0) = Inr ()
   \<and> netcdf (snd (gen_sflux world_ok bbox0 day0 1 None state0))
       = [(''20230101/gfs_2023010100.nc'', dataset_ok)]"
proof -
  have a: "fst (gen_sflux world_ok bbox_greenwich day0 1 None state0) = Inl IndexError"
    by (simp add: gen_sflux_greenwich)
  with gen_sflux_writes_last [of world_ok bbox_greenwich day0 1 None state0]
  have a': "netcdf (snd (gen_sflux world_ok bbox_greenwich day0 1 None state0)) = netcdf state0"
    by blast
  have b: "fst (gen_sflux world_fail bbox0 day0 1 None state0)
       = Inl (DecodeError ''No valid message found'')"
    by (simp add: gen_sflux_fail)
  with gen_sflux_writes_last [of world_fail bbox0 day0 1 None state0]
  have b': "netcdf (snd (gen_sflux world_fail bbox0 day0 1 None state0)) = netcdf state0"
    by blast
  have c: "fst (gen_sflux world_ok bbox0 day0 1 None state0) = Inr ()"
    by (simp add: gen_sflux_ok)
  have c': "netcdf (snd (gen_sflux world_ok bbox0 day0 1 None state0))
       = [(''20230101/gfs_2023010100.nc'', dataset_ok)]"
    by (simp add: gen_sflux_ok)
  show ?thesis using a a' b b' c c' by blast
qed


text \<open>
  C7, evaluated where it fails. Hours 0 to 3 are listed, one forecast day is requested and
  the download of hour 2 raises at once. The exception is caught and logged and the loop
  goes on to hour 3, but the file of hour 2 was opened for writing before the download, so
  it exists, empty, and the file list holds three paths, the one of hour 2 among them. With
  the decoder of the examples, which rejects an empty file, the run of the day then ends
  with the decoder's exception.
\<close>

theorem failed_download_leaves_file:
  "selected_keys 1 (file_metadata (objects0 names_hourly)) =
     [''gfs.20230101/00/atmos/gfs.t00z.pgrb2.0p25.f001'',
      ''gfs.20230101/00/atmos/gfs.t00z.pgrb2.0p25.f002'',
      ''gfs.20230101/00/atmos/gfs.t00z.pgrb2.0p25.f003'']
   \<and> download_fileobj world_fail ''gfs.20230101/00/atmos/gfs.t00z.pgrb2.0p25.f002'' = DownloadRaised []
   \<and> fst (AWSGrib2Inventory world_fail day0 1 None ''atmos'' state0) = Inr inventory0
   \<and> files inventory0 (snd (AWSGrib2Inventory world_fail day0 1 None ''atmos'' state0)) =
       [''/tmp/tmpa1/gfs.20230101/00/atmos/gfs.t00z.pgrb2.0p25.f001.grib2'',
        ''/tmp/tmpa1/gfs.20230101/00/atmos/gfs.t00z.pgrb2.0p25.f002.grib2'',
        ''/tmp/tmpa1/gfs.20230101/00/atmos/gfs.t00z.pgrb2.0p25.f003.grib2'']
   \<and> map_of (fs (snd (AWSGrib2Inventory world_fail day0 1 None ''atmos'' state0)))
         ''/tmp/tmpa1/gfs.20230101/00/atmos/gfs.t00z.pgrb2.0p25.f002.grib2'' = Some []
   \<and> download_log (snd (AWSGrib2Inventory world_fail day0 1 None ''atmos'' state0)) =
       [''Downloading file gfs.20230101/00/atmos/gfs.t00z.pgrb2.0p25.f001, '',
        ''Downloading file gfs.20230101/00/atmos/gfs.t00z.pgrb2.0p25.f002, '',
        ''file gfs.20230101/00/atmos/gfs.t00z.pgrb2.0p25.f002 is not available'',
        ''Downloading file gfs.20230101/00/atmos/gfs.t00z.pgrb2.0p25.f003, '']
   \<and> fst (gen_sflux world_fail bbox0 day0 1 None state0)
       = Inl (DecodeError ''No valid message found'')"
  unfolding files_fail gen_sflux_fail unfolding init_fail file_metadata_hourly
  by (simp add: selected_keys_def py_slice_def slice_bound_def key0_def world_fail_def world0_def)

end
